theory Spec2Isabelle
  imports Complex_Main "HOL-Library.Product_Lexorder" "HOL-Library.AList"
begin

section \<open>Data model of the tariff snapshot\<close>

text \<open>
  The snapshot is the JSON list returned by the loader; each element is a dictionary.
  A dictionary with known keys is a record; a key that may be absent is an option
  (\<open>None\<close> is the absent key, the value \<open>dict.get\<close> answers with its default).

  A calendar date (\<open>datetime.date\<close>) is the triple (year, month, day); Python compares
  dates in exactly this lexicographic order.

  Two fields go through a library parser before the code looks at them:
  \<open>datetime.fromisoformat(s.replace('Z', '+00:00')).date()\<close> for dates and \<open>float(s)\<close>
  for the penalty rate. The parsers are not code of this repository, so a field carries
  the outcome of the parser on its text: \<open>Absent\<close> (no such key), \<open>Malformed\<close> (the
  parser raises ValueError) or \<open>Parsed v\<close>. The key can also hold a value that is not a
  string, JSON \<open>null\<close> above all: \<open>NotText\<close>. For a date the code then calls \<open>replace\<close>
  on it, which raises AttributeError. A penalty rate is a rational number.

  A rate description is text that the code hands on as it is: \<open>NoKey\<close> when the key is
  absent, \<open>NotString\<close> when it holds a value that is not a string (\<open>dict.get\<close> then
  answers that value, \<open>None\<close> for JSON \<open>null\<close>), and \<open>Text s\<close>. Text is ASCII: a character
  of the model is a byte.

  Fields keep the keys of the dictionaries. A key that several dictionaries share, or
  that is not a name here, has a prefix: \<open>rec_type\<close> is the key \<open>type\<close>, \<open>typename\<close> the
  key \<open>__typename\<close>, and \<open>ip_\<close>, \<open>sr_\<close>, \<open>item_\<close>, \<open>sp_\<close>, \<open>ot_\<close>, \<open>rated_\<close>, \<open>td_\<close>,
  \<open>req_\<close> mark the dictionary a key belongs to.
\<close>

type_synonym date = "nat \<times> nat \<times> nat"

datatype py_error = KeyError string | ValueError | IndexError | AttributeError | TypeError

datatype 'a field = Absent | NotText | Malformed | Parsed 'a

datatype rate_text = NoKey | NotString | Text string

record condition =
  fieldKey :: "string option"
  typename :: "string option"
  fieldShouldEqual :: "string option"
  threshold :: "date field"
  lowerBound :: "date field"
  upperBound :: "date field"

record import_program =
  programName :: "string option"
  ip_countriesOfOrigin :: "string option list option"

record special_rate =
  importProgram :: "import_program option"
  spi :: "string option"
  sr_rateDescription :: rate_text

text \<open>
  \<open>code\<close> is \<open>codeVariant.code\<close> (\<open>None\<close>: \<open>codeVariant\<close> or its \<open>code\<close> is absent);
  \<open>rateInfo\<close> is \<open>None\<close> when the key \<open>rateInfo\<close> is absent and otherwise holds the
  field \<open>penaltyRate\<close>, where \<open>Absent\<close> also stands for the falsy values (\<open>None\<close>, the
  empty string, zero) that \<open>or 0\<close> replaces, \<open>Parsed\<close> also for a number, and \<open>NotText\<close> for
  any other value, which \<open>float\<close> refuses with TypeError; an entry of \<open>countriesOfOrigin\<close> is its
  \<open>usCustomsCountryCode\<close>, an entry of \<open>excludedByCodes\<close> its \<open>code\<close>.
\<close>

record tariff =
  rec_type :: "string option"
  code :: "string option"
  label :: "string option"
  rateDescription :: rate_text
  fullDescription :: "string option"
  rateInfo :: "rat field option"
  effectiveFrom :: "date field"
  effectiveTo :: "date field"
  countriesOfOrigin :: "string option list"
  applicabilityConditions :: "condition list"
  excludedByCodes :: "string option list"
  priority :: "int option"
  requiresUserChoice :: "bool option"
  specialRates :: "special_rate list"

text \<open>What the code prints: the two warnings of the applicability check.\<close>

datatype diagnostic =
    ConditionWarning condition
  | ApplicabilityWarning "string option" py_error

section \<open>Applicability evaluator (tariff_processor.py)\<close>

text \<open>
  \<open>datetime.fromisoformat(d[key].replace('Z', '+00:00')).date()\<close>: the subscript raises
  KeyError, \<open>replace\<close> on a value that is not a string AttributeError, the parser
  ValueError.
\<close>

fun iso_date :: "string \<Rightarrow> date field \<Rightarrow> py_error + date" where
  "iso_date key Absent = Inl (KeyError key)"
| "iso_date key NotText = Inl AttributeError"
| "iso_date key Malformed = Inl ValueError"
| "iso_date key (Parsed d) = Inr d"

text \<open>\<open>except (KeyError, ValueError)\<close>: the exceptions the two handlers catch.\<close>

fun caught :: "py_error \<Rightarrow> bool" where
  "caught (KeyError k) = True"
| "caught ValueError = True"
| "caught e = False"

text \<open>
  The body of the \<open>try\<close> block for a \<open>DATE_OF_LOADING\<close> condition, with a loading date:
  \<open>Inr False\<close> is \<open>return False\<close>, \<open>Inr True\<close> falls through to the next condition.
\<close>

definition loading_date_test :: "condition \<Rightarrow> date \<Rightarrow> py_error + bool" where
  "loading_date_test c loading_date =
     (if typename c = Some ''CustomsTariffLess'' then
        (case iso_date ''threshold'' (threshold c) of
           Inl e \<Rightarrow> Inl e
         | Inr t \<Rightarrow> Inr (loading_date < t))
      else if typename c = Some ''CustomsTariffGreater'' then
        (case iso_date ''threshold'' (threshold c) of
           Inl e \<Rightarrow> Inl e
         | Inr t \<Rightarrow> Inr (loading_date > t))
      else if typename c = Some ''CustomsTariffBetween'' then
        (case iso_date ''lowerBound'' (lowerBound c) of
           Inl e \<Rightarrow> Inl e
         | Inr lower \<Rightarrow>
            (case iso_date ''upperBound'' (upperBound c) of
               Inl e \<Rightarrow> Inl e
             | Inr upper \<Rightarrow> Inr (lower \<le> loading_date \<and> loading_date < upper)))
      else Inr True)"

text \<open>
  \<open>_check_conditions\<close>: \<open>Inr (b, ds)\<close> is the value returned and what was printed,
  \<open>Inl e\<close> an exception the handler of the loop does not catch (nothing is printed
  before it: every warning is followed by \<open>return False\<close>).
\<close>

fun check_conditions ::
  "condition list \<Rightarrow> string \<Rightarrow> date option \<Rightarrow> py_error + bool \<times> diagnostic list" where
  "check_conditions [] transport loading_date = Inr (True, [])"
| "check_conditions (c # cs) transport loading_date =
     (if fieldKey c = Some ''MODE_OF_TRANSPORT'' \<and> transport \<noteq> ''ANY'' then
        (if fieldShouldEqual c \<noteq> Some transport then Inr (False, [])
         else check_conditions cs transport loading_date)
      else if fieldKey c = Some ''DATE_OF_LOADING'' then
        (case loading_date of
           None \<Rightarrow> Inr (False, [])
         | Some ld \<Rightarrow>
            (case loading_date_test c ld of
               Inl e \<Rightarrow> (if caught e then Inr (False, [ConditionWarning c]) else Inl e)
             | Inr ok \<Rightarrow>
                (if ok then check_conditions cs transport loading_date else Inr (False, []))))
      else check_conditions cs transport loading_date)"

text \<open>
  \<open>any(c['usCustomsCountryCode'] == country for c in countries)\<close>: the generator stops at
  the first match, and an entry without the key raises KeyError when it is reached.
\<close>

fun any_country :: "string option list \<Rightarrow> string \<Rightarrow> py_error + bool" where
  "any_country [] country = Inr False"
| "any_country (None # cs) country = Inl (KeyError ''usCustomsCountryCode'')"
| "any_country (Some c # cs) country =
     (if c = country then Inr True else any_country cs country)"

text \<open>
  The \<open>try\<close> block of \<open>_is_code_applicable\<close>: \<open>Inl e\<close> is the exception that leaves the
  block, \<open>Inr b\<close> the value returned inside the block (or after it); the second
  component is what \<open>_check_conditions\<close> printed.
\<close>

definition applicable_body ::
  "tariff \<Rightarrow> string \<Rightarrow> string \<Rightarrow> date \<Rightarrow> date option \<Rightarrow> (py_error + bool) \<times> diagnostic list" where
  "applicable_body c country transport entry_date loading_date =
     (case iso_date ''effectiveFrom'' (effectiveFrom c) of
        Inl e \<Rightarrow> (Inl e, [])
      | Inr from_date \<Rightarrow>
         (case iso_date ''effectiveTo'' (effectiveTo c) of
            Inl e \<Rightarrow> (Inl e, [])
          | Inr to_date \<Rightarrow>
             (if \<not> (from_date \<le> entry_date \<and> entry_date \<le> to_date) then (Inr False, [])
              else
                (case (if countriesOfOrigin c \<noteq> []
                       then any_country (countriesOfOrigin c) country else Inr True) of
                   Inl e \<Rightarrow> (Inl e, [])
                 | Inr found \<Rightarrow>
                    (if \<not> found then (Inr False, [])
                     else
                       (case check_conditions (applicabilityConditions c) transport loading_date of
                          Inl e \<Rightarrow> (Inl e, [])
                        | Inr (ok, ds) \<Rightarrow> (Inr ok, ds)))))))"

text \<open>
  \<open>_is_code_applicable\<close>: the handler turns a KeyError or a ValueError into a warning
  and \<open>False\<close>; any other exception leaves the function (\<open>Inl\<close>).
\<close>

definition is_code_applicable ::
  "tariff \<Rightarrow> string \<Rightarrow> string \<Rightarrow> date \<Rightarrow> date option \<Rightarrow> py_error + bool \<times> diagnostic list" where
  "is_code_applicable c country transport entry_date loading_date =
     (case applicable_body c country transport entry_date loading_date of
        (Inl e, ds) \<Rightarrow>
          (if caught e then Inr (False, ds @ [ApplicabilityWarning (code c) e]) else Inl e)
      | (Inr b, ds) \<Rightarrow> Inr (b, ds))"

section \<open>Penalty-exclusion resolver (tariff_processor.py)\<close>

text \<open>\<open>float(c['rateInfo'].get('penaltyRate') or 0)\<close>\<close>

definition float_penalty_rate :: "tariff \<Rightarrow> py_error + rat" where
  "float_penalty_rate c =
     (case rateInfo c of
        None \<Rightarrow> Inl (KeyError ''rateInfo'')
      | Some Absent \<Rightarrow> Inr 0
      | Some NotText \<Rightarrow> Inl TypeError
      | Some Malformed \<Rightarrow> Inl ValueError
      | Some (Parsed r) \<Rightarrow> Inr r)"

text \<open>
  The comprehension \<open>[c for c in tariffs if test(float(...))]\<close>; it raises at the first
  record whose rate cannot be read.
\<close>

fun select_by_rate :: "(rat \<Rightarrow> bool) \<Rightarrow> tariff list \<Rightarrow> py_error + tariff list" where
  "select_by_rate test [] = Inr []"
| "select_by_rate test (c # cs) =
     (case float_penalty_rate c of
        Inl e \<Rightarrow> Inl e
      | Inr r \<Rightarrow>
         (case select_by_rate test cs of
            Inl e \<Rightarrow> Inl e
          | Inr rs \<Rightarrow> Inr (if test r then c # rs else rs)))"

text \<open>\<open>{e['codeVariant']['code'] for e in exclusions}\<close>, as the list of its elements.\<close>

fun exclusion_codes :: "tariff list \<Rightarrow> py_error + string list" where
  "exclusion_codes [] = Inr []"
| "exclusion_codes (e # es) =
     (case code e of
        None \<Rightarrow> Inl (KeyError ''code'')
      | Some k \<Rightarrow>
         (case exclusion_codes es of
            Inl err \<Rightarrow> Inl err
          | Inr ks \<Rightarrow> Inr (k # ks)))"

record excluded_entry =
  penalty :: tariff
  exclusions :: "tariff list"

text \<open>
  The inner loop over \<open>penalty.get('excludedByCodes', [])\<close>. Its state is
  (\<open>is_excluded\<close>, \<open>matching_exclusions\<close>, \<open>used_exclusion_codes\<close>).
\<close>

fun scan_excluded_by ::
  "tariff list \<Rightarrow> string set \<Rightarrow> string option list \<Rightarrow> bool \<times> tariff list \<times> string set
     \<Rightarrow> bool \<times> tariff list \<times> string set" where
  "scan_excluded_by excls exclusion_code_set [] st = st"
| "scan_excluded_by excls exclusion_code_set (None # xs) st =
     scan_excluded_by excls exclusion_code_set xs st"
| "scan_excluded_by excls exclusion_code_set (Some ex_code # xs) (is_excluded, matching, used) =
     (if ex_code \<in> exclusion_code_set then
        scan_excluded_by excls exclusion_code_set xs
          (True, matching @ filter (\<lambda>e. code e = Some ex_code) excls, insert ex_code used)
      else scan_excluded_by excls exclusion_code_set xs (is_excluded, matching, used))"

text \<open>
  The loop over the penalties (\<open>excls\<close> is the list \<open>exclusions\<close> of the source). Its state is (\<open>final_penalties\<close>, \<open>excluded_penalties\<close>,
  \<open>used_exclusion_codes\<close>). The dictionary \<open>excluded_penalties\<close> is an association list
  in insertion order; assigning to a key that is present replaces the value in place,
  which is what \<open>AList.update\<close> does.
\<close>

fun link_penalties ::
  "tariff list \<Rightarrow> string set \<Rightarrow> tariff list
     \<Rightarrow> tariff list \<times> (string \<times> excluded_entry) list \<times> string set
     \<Rightarrow> py_error + tariff list \<times> (string \<times> excluded_entry) list \<times> string set" where
  "link_penalties excls exclusion_code_set [] st = Inr st"
| "link_penalties excls exclusion_code_set (p # ps) (final, excluded, used) =
     (case code p of
        None \<Rightarrow> Inl (KeyError ''code'')
      | Some penalty_code \<Rightarrow>
         (case scan_excluded_by excls exclusion_code_set (excludedByCodes p) (False, [], used) of
            (is_excluded, matching, used') \<Rightarrow>
              (if is_excluded then
                 link_penalties excls exclusion_code_set ps
                   (final,
                    AList.update penalty_code \<lparr>penalty = p, exclusions = matching\<rparr> excluded,
                    used')
               else
                 link_penalties excls exclusion_code_set ps (final @ [p], excluded, used'))))"

record processed =
  applicable_penalties :: "tariff list"
  excluded_penalties :: "(string \<times> excluded_entry) list"
  neutral_exclusions :: "tariff list"

definition process_other_tariffs :: "tariff list \<Rightarrow> py_error + processed" where
  "process_other_tariffs tariffs =
     (case select_by_rate (\<lambda>r. r > 0) tariffs of
        Inl e \<Rightarrow> Inl e
      | Inr penalties \<Rightarrow>
         (case select_by_rate (\<lambda>r. r = 0) tariffs of
            Inl e \<Rightarrow> Inl e
          | Inr excls \<Rightarrow>
             (case exclusion_codes excls of
                Inl e \<Rightarrow> Inl e
              | Inr codes \<Rightarrow>
                 (case link_penalties excls (set codes) penalties ([], [], {}) of
                    Inl e \<Rightarrow> Inl e
                  | Inr (final, excluded, used) \<Rightarrow>
                      Inr \<lparr>applicable_penalties = final,
                           excluded_penalties = excluded,
                           neutral_exclusions =
                             filter (\<lambda>e. case code e of None \<Rightarrow> True | Some k \<Rightarrow> k \<notin> used)
                               excls\<rparr>))))"

section \<open>The analysis (tariff_processor.py)\<close>

text \<open>
  The comprehension that selects the special programs of the primary record; the
  subscripts \<open>rate['importProgram']['countriesOfOrigin']\<close> raise KeyError outside any
  handler.
\<close>

fun select_special_programs :: "special_rate list \<Rightarrow> string \<Rightarrow> py_error + special_rate list" where
  "select_special_programs [] country = Inr []"
| "select_special_programs (r # rs) country =
     (case importProgram r of
        None \<Rightarrow> Inl (KeyError ''importProgram'')
      | Some ip \<Rightarrow>
         (case ip_countriesOfOrigin ip of
            None \<Rightarrow> Inl (KeyError ''countriesOfOrigin'')
          | Some cs \<Rightarrow>
             (case any_country cs country of
                Inl e \<Rightarrow> Inl e
              | Inr found \<Rightarrow>
                 (case select_special_programs rs country of
                    Inl e \<Rightarrow> Inl e
                  | Inr ps \<Rightarrow> Inr (if found then r # ps else ps)))))"

text \<open>
  The comprehension that selects the other applicable records, with what the
  applicability checks print on the way; an exception that leaves a check ends it.
\<close>

fun select_other_tariffs ::
  "tariff list \<Rightarrow> string \<Rightarrow> string \<Rightarrow> date \<Rightarrow> date option
     \<Rightarrow> diagnostic list \<times> (py_error + tariff list)" where
  "select_other_tariffs [] country transport entry_date loading_date = ([], Inr [])"
| "select_other_tariffs (c # cs) country transport entry_date loading_date =
     (if rec_type c \<noteq> Some ''COMMODITY_CODE'' then
        (case is_code_applicable c country transport entry_date loading_date of
           Inl e \<Rightarrow> ([], Inl e)
         | Inr (ok, ds) \<Rightarrow>
             (case select_other_tariffs cs country transport entry_date loading_date of
                (ds', Inl e) \<Rightarrow> (ds @ ds', Inl e)
              | (ds', Inr rs) \<Rightarrow> (ds @ ds', Inr (if ok then c # rs else rs))))
      else select_other_tariffs cs country transport entry_date loading_date)"

record analysis = processed +
  primary :: tariff
  special_programs :: "special_rate list"

datatype analysis_result = AnalysisError string | Analysis analysis

text \<open>
  \<open>analyze_tariffs\<close> answers the printed diagnostics and either the exception that
  leaves the function or the dictionary it returns.
\<close>

definition analyze_tariffs ::
  "tariff list \<Rightarrow> string \<Rightarrow> string \<Rightarrow> date \<Rightarrow> date option
     \<Rightarrow> diagnostic list \<times> (py_error + analysis_result)" where
  "analyze_tariffs raw_data country transport entry_date loading_date =
     (case find (\<lambda>c. rec_type c = Some ''COMMODITY_CODE'') raw_data of
        None \<Rightarrow> ([], Inr (AnalysisError ''No primary COMMODITY_CODE found.''))
      | Some primary_code \<Rightarrow>
         (case select_special_programs (specialRates primary_code) country of
            Inl e \<Rightarrow> ([], Inl e)
          | Inr programs \<Rightarrow>
             (case select_other_tariffs raw_data country transport entry_date loading_date of
                (ds, Inl e) \<Rightarrow> (ds, Inl e)
              | (ds, Inr other_tariffs) \<Rightarrow>
                  (case process_other_tariffs
                          (sort_key (\<lambda>x. case priority x of None \<Rightarrow> 99 | Some n \<Rightarrow> n) other_tariffs) of
                     Inl e \<Rightarrow> (ds, Inl e)
                   | Inr pt \<Rightarrow>
                      (ds, Inr (Analysis
                         \<lparr>applicable_penalties = applicable_penalties pt,
                          excluded_penalties = excluded_penalties pt,
                          neutral_exclusions = neutral_exclusions pt,
                          primary = primary_code,
                          special_programs = programs\<rparr>))))))"

section \<open>Report builder (report_builder.py)\<close>

text \<open>
  A rate of the report is what \<open>dict.get\<close> answered: \<open>Some\<close> text, or \<open>None\<close> for a value
  that is not a string.
\<close>

record primary_report =
  hts_code :: string
  description :: string
  column_1_rate :: "string option"
  column_2_rate :: string
  column_2_note :: string

datatype primary_info = PrimaryInfoError string | PrimaryInfo primary_report

record program_item =
  program_name :: string
  item_spi :: string
  program_rate :: "string option"

record special_programs_report =
  sp_country :: string
  sp_message :: "string option"
  applicable_programs :: "program_item list"

text \<open>
  The items of the three lists of \<open>other_tariffs\<close>. An active penalty has the keys
  \<open>label\<close>, \<open>code\<close>, \<open>rate\<close>; an exclusion has \<open>requires_choice\<close> as well.
\<close>

record penalty_item =
  item_label :: string
  item_code :: string
  item_rate :: "string option"

record exclusion_item = penalty_item +
  requires_choice :: bool

text \<open>
  An entry of the list \<open>excluded_penalties\<close> of the report. The aggregation reads a key
  \<open>neutral_exclusions\<close> from such an entry, with the default \<open>[]\<close>; the field
  \<open>entry_neutral_exclusions\<close> is that key, \<open>None\<close> when the entry does not have it.
\<close>

record excluded_item =
  penalty_label :: string
  penalty_code :: string
  penalty_rate :: "string option"
  potential_exclusions :: "exclusion_item list"
  entry_neutral_exclusions :: "exclusion_item list option"

record other_tariffs_report =
  ot_active_penalties :: "penalty_item list"
  ot_excluded_penalties :: "excluded_item list"
  ot_neutral_exclusions :: "exclusion_item list"
  ot_message :: "string list option"

record report_data =
  primary_info :: primary_info
  special_programs_info :: special_programs_report
  other_tariffs :: other_tariffs_report

text \<open>\<open>d.get(key, 'N/A')\<close>\<close>

definition or_na :: "string option \<Rightarrow> string" where
  "or_na v = (case v of None \<Rightarrow> ''N/A'' | Some s \<Rightarrow> s)"

text \<open>\<open>d.get('rateDescription', 'N/A')\<close>\<close>

definition rate_or_na :: "rate_text \<Rightarrow> string option" where
  "rate_or_na v = (case v of NoKey \<Rightarrow> Some ''N/A'' | NotString \<Rightarrow> None | Text s \<Rightarrow> Some s)"

definition build_primary_info :: "tariff option \<Rightarrow> primary_info" where
  "build_primary_info p =
     (case p of
        None \<Rightarrow> PrimaryInfoError ''No primary commodity code found.''
      | Some c \<Rightarrow> PrimaryInfo
          \<lparr>hts_code = or_na (code c),
           description = or_na (fullDescription c),
           column_1_rate = rate_or_na (rateDescription c),
           column_2_rate = ''15% (Rate applies to Cuba & North Korea)'',
           column_2_note = ''Column 2 rate is not in the Flexport API file, it was retrieved from USITC data.''\<rparr>)"

definition build_program :: "special_rate \<Rightarrow> program_item" where
  "build_program prog =
     \<lparr>program_name = (case importProgram prog of None \<Rightarrow> ''N/A'' | Some ip \<Rightarrow> or_na (programName ip)),
      item_spi = or_na (spi prog),
      program_rate = rate_or_na (sr_rateDescription prog)\<rparr>"

definition build_special_programs :: "special_rate list \<Rightarrow> string \<Rightarrow> special_programs_report" where
  "build_special_programs programs country =
     (if programs = [] then
        \<lparr>sp_country = country,
         sp_message = Some ''No special trade programs (e.g., GSP, FTAs) found for this country.'',
         applicable_programs = []\<rparr>
      else
        \<lparr>sp_country = country, sp_message = None,
         applicable_programs = map build_program programs\<rparr>)"

definition build_penalty_item :: "tariff \<Rightarrow> penalty_item" where
  "build_penalty_item c =
     \<lparr>item_label = or_na (label c), item_code = or_na (code c), item_rate = rate_or_na (rateDescription c)\<rparr>"

definition build_exclusion_item :: "tariff \<Rightarrow> exclusion_item" where
  "build_exclusion_item c =
     \<lparr>item_label = or_na (label c), item_code = or_na (code c), item_rate = rate_or_na (rateDescription c),
      requires_choice = (case requiresUserChoice c of None \<Rightarrow> False | Some b \<Rightarrow> b)\<rparr>"

definition build_excluded_item :: "string \<times> excluded_entry \<Rightarrow> excluded_item" where
  "build_excluded_item kv =
     (case kv of (pcode, data) \<Rightarrow>
        \<lparr>penalty_label = or_na (label (penalty data)),
         penalty_code = pcode,
         penalty_rate = rate_or_na (rateDescription (penalty data)),
         potential_exclusions = map build_exclusion_item (exclusions data),
         entry_neutral_exclusions = None\<rparr>)"

definition build_other_tariffs ::
  "tariff list \<Rightarrow> (string \<times> excluded_entry) list \<Rightarrow> tariff list \<Rightarrow> other_tariffs_report" where
  "build_other_tariffs penalties excluded neutral =
     (if penalties = [] \<and> excluded = [] \<and> neutral = [] then
        \<lparr>ot_active_penalties = [], ot_excluded_penalties = [], ot_neutral_exclusions = [],
         ot_message = Some [''No other tariffs (e.g., Section 301, IEEPA) found matching your criteria.'']\<rparr>
      else
        \<lparr>ot_active_penalties = map build_penalty_item penalties,
         ot_excluded_penalties = map build_excluded_item excluded,
         ot_neutral_exclusions = map build_exclusion_item neutral,
         ot_message = None\<rparr>)"

definition generate_report_data :: "analysis \<Rightarrow> string \<Rightarrow> report_data" where
  "generate_report_data a country =
     \<lparr>primary_info = build_primary_info (Some (primary a)),
      special_programs_info = build_special_programs (special_programs a) country,
      other_tariffs =
        build_other_tariffs (applicable_penalties a) (excluded_penalties a) (neutral_exclusions a)\<rparr>"

section \<open>Python floats\<close>

text \<open>
  A Python float is an IEEE 754 binary64 number: a finite value (a rational of the form
  \<open>m * 2^u\<close> with \<open>\<bar>m\<bar> \<le> 2^53\<close> and \<open>- 1074 \<le> u\<close>, below \<open>2^1024\<close> in size), one of the two
  infinities, or not a number. The two zeros are one value, as they are for \<open>==\<close>.
  Every operation yields the exact result rounded to the nearest binary64 number, a tie
  going to the even one.
\<close>

datatype pyfloat = Finite rat | PlusInf | MinusInf | NaN

text \<open>\<open>int.bit_length\<close>, a power of two with an integer exponent, and \<open>\<lfloor>log\<^sub>2 a\<rfloor>\<close> for \<open>a > 0\<close>.\<close>

fun bit_length :: "nat \<Rightarrow> nat" where
  "bit_length n = (if n = 0 then 0 else Suc (bit_length (n div 2)))"

definition pow2 :: "int \<Rightarrow> rat" where
  "pow2 k = (if 0 \<le> k then 2 ^ nat k else 1 / 2 ^ nat (- k))"

definition floor_log2 :: "rat \<Rightarrow> int" where
  "floor_log2 a =
     (if 1 \<le> a then int (bit_length (nat \<lfloor>a\<rfloor>)) - 1
      else - int (bit_length (nat (\<lceil>1 / a\<rceil> - 1))))"

definition round_half_even :: "rat \<Rightarrow> int" where
  "round_half_even x =
     (let f = \<lfloor>x\<rfloor>; d = x - of_int f
      in if d < 1 / 2 then f else if 1 / 2 < d then f + 1 else if even f then f else f + 1)"

text \<open>
  Rounding to binary64. With \<open>2^e \<le> \<bar>x\<bar> < 2^(e+1)\<close> the neighbours of \<open>x\<close> are \<open>2^u\<close> apart,
  \<open>u = e - 52\<close>, or \<open>u = - 1074\<close> in the subnormal range; a result of size \<open>2^1024\<close> or more
  is an infinity.
\<close>

definition round_double :: "rat \<Rightarrow> pyfloat" where
  "round_double x =
     (if x = 0 then Finite 0
      else
        (let e = floor_log2 \<bar>x\<bar>;
             u = max (e - 52) (- 1074);
             m = round_half_even (\<bar>x\<bar> / pow2 u)
         in if 1024 \<le> e \<or> (e = 1023 \<and> m = 2 ^ 53) then (if x < 0 then MinusInf else PlusInf)
            else Finite ((if x < 0 then - 1 else 1) * of_int m * pow2 u)))"

text \<open>\<open>x + y\<close>; a sum with zero is the other operand, exactly.\<close>

fun fadd :: "pyfloat \<Rightarrow> pyfloat \<Rightarrow> pyfloat" where
  "fadd NaN y = NaN"
| "fadd x NaN = NaN"
| "fadd PlusInf MinusInf = NaN"
| "fadd MinusInf PlusInf = NaN"
| "fadd PlusInf y = PlusInf"
| "fadd x PlusInf = PlusInf"
| "fadd MinusInf y = MinusInf"
| "fadd x MinusInf = MinusInf"
| "fadd (Finite a) (Finite b) =
     (if a = 0 then Finite b else if b = 0 then Finite a else round_double (a + b))"

text \<open>\<open>x * y\<close>; an infinity times zero is not a number.\<close>

definition inf_of_sign :: "bool \<Rightarrow> pyfloat" where
  "inf_of_sign negative = (if negative then MinusInf else PlusInf)"

fun fmul :: "pyfloat \<Rightarrow> pyfloat \<Rightarrow> pyfloat" where
  "fmul NaN y = NaN"
| "fmul x NaN = NaN"
| "fmul (Finite a) (Finite b) = round_double (a * b)"
| "fmul (Finite a) y = (if a = 0 then NaN else inf_of_sign ((a < 0) \<noteq> (y = MinusInf)))"
| "fmul x (Finite b) = (if b = 0 then NaN else inf_of_sign ((b < 0) \<noteq> (x = MinusInf)))"
| "fmul x y = inf_of_sign ((x = MinusInf) \<noteq> (y = MinusInf))"

text \<open>\<open>x / d\<close> for a finite divisor \<open>d > 0\<close> (the code divides by 100 only).\<close>

fun fdiv_by :: "pyfloat \<Rightarrow> rat \<Rightarrow> pyfloat" where
  "fdiv_by (Finite a) d = round_double (a / d)"
| "fdiv_by x d = x"

text \<open>Whether \<open>json.dumps(..., allow_nan=False)\<close> takes the number.\<close>

fun json_compliant :: "pyfloat \<Rightarrow> bool" where
  "json_compliant (Finite a) = True"
| "json_compliant x = False"

section \<open>Rate aggregation (route.py)\<close>

text \<open>
  \<open>re.findall(r"\d+\.?\d*%?", s)\<close> on a string. A match can only start at a digit; there
  the greedy pattern takes all the digits, a point if one follows, all the digits after
  it and a percent sign if one follows (every part after the first is optional, so the
  matcher never backtracks). The search goes on after the match. Text is ASCII, so
  \<open>\d\<close> is one of the ten digits.
\<close>

definition is_digit :: "char \<Rightarrow> bool" where
  "is_digit c = (c \<in> set ''0123456789'')"

definition match_number :: "string \<Rightarrow> string \<times> string" where
  "match_number s =
     (let int_part = takeWhile is_digit s;
          r1 = dropWhile is_digit s;
          dot = (if r1 \<noteq> [] \<and> hd r1 = CHR ''.'' then ''.'' else []);
          r2 = drop (length dot) r1;
          frac_part = takeWhile is_digit r2;
          r3 = dropWhile is_digit r2;
          pct = (if r3 \<noteq> [] \<and> hd r3 = CHR ''%'' then ''%'' else []);
          r4 = drop (length pct) r3
      in (int_part @ dot @ frac_part @ pct, r4))"

lemma match_number_rest: "length (snd (match_number s)) \<le> length (dropWhile is_digit s)"
proof -
  have a: "length (dropWhile is_digit (drop n (dropWhile is_digit s))) \<le> length (dropWhile is_digit s)" for n
    using length_dropWhile_le[of is_digit "drop n (dropWhile is_digit s)"] by simp
  show ?thesis
    unfolding match_number_def Let_def snd_conv length_drop
    using a by (meson diff_le_self order.trans)
qed

function findall_numbers :: "string \<Rightarrow> string list" where
  "findall_numbers [] = []"
| "findall_numbers (c # cs) =
     (if is_digit c
      then fst (match_number (c # cs)) # findall_numbers (snd (match_number (c # cs)))
      else findall_numbers cs)"
  by pat_completeness auto
termination
proof (relation "measure length")
  show "wf (measure length)" by simp
next
  fix c :: char and cs :: string assume "is_digit c"
  then have "length (snd (match_number (c # cs))) \<le> length (dropWhile is_digit cs)"
    using match_number_rest[of "c # cs"] by simp
  also have "\<dots> \<le> length cs" by (rule length_dropWhile_le)
  finally show "(snd (match_number (c # cs)), c # cs) \<in> measure length" by simp
next
  fix c :: char and cs :: string show "(cs, c # cs) \<in> measure length" by simp
qed

text \<open>
  \<open>extract_values\<close>: \<open>re.findall\<close> raises TypeError when its argument is not a string
  (\<open>None\<close> here).
\<close>

definition extract_values :: "string option \<Rightarrow> py_error + string list" where
  "extract_values input_string =
     (case input_string of None \<Rightarrow> Inl TypeError | Some s \<Rightarrow> Inr (findall_numbers s))"

text \<open>
  \<open>float(s)\<close> on the texts this program gives it: the tokens of \<open>extract_values\<close>
  with the percent sign removed, that is digits, optionally a point, optionally digits.
  The result is the decimal number rounded to binary64; \<open>None\<close> is ValueError. (Python's
  \<open>float\<close> accepts more forms, signs and exponents among them; no token has them.)
\<close>

definition digits_value :: "string \<Rightarrow> nat" where
  "digits_value ds = foldl (\<lambda>n c. 10 * n + (of_char c - 48)) 0 ds"

definition py_float :: "string \<Rightarrow> pyfloat option" where
  "py_float s =
     (let int_part = takeWhile is_digit s; rest = dropWhile is_digit s
      in if int_part = [] then None
         else if rest = [] then Some (round_double (of_nat (digits_value int_part)))
         else if hd rest = CHR ''.'' \<and> list_all is_digit (tl rest)
           then Some (round_double (of_nat (digits_value int_part)
                      + of_nat (digits_value (tl rest)) / 10 ^ length (tl rest)))
         else None)"

text \<open>\<open>s.replace('%', '')\<close>\<close>

definition strip_percent :: "string \<Rightarrow> string" where
  "strip_percent s = filter (\<lambda>c. c \<noteq> CHR ''%'') s"

text \<open>\<open>s.lower()\<close> and \<open>s.upper()\<close> on ASCII text.\<close>

definition py_lower :: "string \<Rightarrow> string" where
  "py_lower s =
     map (\<lambda>c. case map_of (zip ''ABCDEFGHIJKLMNOPQRSTUVWXYZ'' ''abcdefghijklmnopqrstuvwxyz'') c of
                  None \<Rightarrow> c | Some d \<Rightarrow> d) s"

definition py_upper :: "string \<Rightarrow> string" where
  "py_upper s =
     map (\<lambda>c. case map_of (zip ''abcdefghijklmnopqrstuvwxyz'' ''ABCDEFGHIJKLMNOPQRSTUVWXYZ'') c of
                  None \<Rightarrow> c | Some d \<Rightarrow> d) s"

text \<open>
  \<open>f"{x:.2f}"\<close>: the exact value of the float with two decimals, a tie rounded to the
  even neighbour, a minus sign for a negative number; \<open>inf\<close> and \<open>nan\<close> by name.
\<close>

fun show_nat :: "nat \<Rightarrow> string" where
  "show_nat n =
     (if n < 10 then [''0123456789'' ! n]
      else show_nat (n div 10) @ [''0123456789'' ! (n mod 10)])"

fun format_2f :: "pyfloat \<Rightarrow> string" where
  "format_2f (Finite x) =
     (let n = nat (round_half_even (\<bar>x\<bar> * 100))
      in (if x < 0 then ''-'' else []) @ show_nat (n div 100) @ ''.''
         @ show_nat (n mod 100 div 10) @ show_nat (n mod 10))"
| "format_2f PlusInf = ''inf''"
| "format_2f MinusInf = ''-inf''"
| "format_2f NaN = ''nan''"

text \<open>
  The dictionaries \<open>get_data\<close> builds: an item with its extracted tokens, and the whole
  result (\<open>basic_rate\<close>, \<open>penalties\<close>, \<open>excluded_penalties\<close>, \<open>potential_exclusions\<close>,
  \<open>neutral_exclusions\<close>). The basic rate is handed on as it is, a string or not.
\<close>

record rated_item =
  rated_label :: string
  rated_code :: string
  rate_values :: "string list"

record tariff_data =
  td_basic_rate :: "string option"
  td_penalties :: "rated_item list"
  td_excluded_penalties :: "rated_item list"
  td_potential_exclusions :: "rated_item list"
  td_neutral_exclusions :: "string list"

text \<open>A loop that appends one result for each element, until a step raises.\<close>

fun collect :: "('a \<Rightarrow> py_error + 'b) \<Rightarrow> 'a list \<Rightarrow> py_error + 'b list" where
  "collect f [] = Inr []"
| "collect f (x # xs) =
     (case f x of
        Inl e \<Rightarrow> Inl e
      | Inr y \<Rightarrow>
         (case collect f xs of
            Inl e \<Rightarrow> Inl e
          | Inr ys \<Rightarrow> Inr (y # ys)))"

text \<open>The dictionary appended for an item with the keys \<open>label\<close>, \<open>code\<close> and a rate.\<close>

definition rated :: "string \<Rightarrow> string \<Rightarrow> string option \<Rightarrow> py_error + rated_item" where
  "rated l c r =
     (case extract_values r of
        Inl e \<Rightarrow> Inl e
      | Inr vs \<Rightarrow> Inr \<lparr>rated_label = l, rated_code = c, rate_values = vs\<rparr>)"

text \<open>
  The strings among \<open>neutral.values()\<close>, in the order of the keys (\<open>label\<close>, \<open>code\<close>,
  \<open>rate\<close>; \<open>requires_choice\<close> is a boolean), each one through \<open>extract_values\<close>.
\<close>

definition neutral_values :: "exclusion_item \<Rightarrow> string list" where
  "neutral_values neutral =
     findall_numbers (item_label neutral) @ findall_numbers (item_code neutral)
       @ (case item_rate neutral of None \<Rightarrow> [] | Some r \<Rightarrow> findall_numbers r)"

text \<open>
  One turn of the loop over the excluded penalties of the report: the item for the
  penalty, the items for its potential exclusions, and the values found under its key
  \<open>neutral_exclusions\<close>.
\<close>

definition excluded_step ::
  "excluded_item \<Rightarrow> py_error + rated_item \<times> rated_item list \<times> string list" where
  "excluded_step p =
     (case rated (penalty_label p) (penalty_code p) (penalty_rate p) of
        Inl e \<Rightarrow> Inl e
      | Inr item \<Rightarrow>
         (case collect (\<lambda>x. rated (item_label x) (item_code x) (item_rate x))
                 (potential_exclusions p) of
            Inl e \<Rightarrow> Inl e
          | Inr potentials \<Rightarrow>
              Inr (item, potentials,
                   (case entry_neutral_exclusions p of
                      None \<Rightarrow> []
                    | Some ns \<Rightarrow> concat (map neutral_values ns)))))"

text \<open>
  \<open>get_data\<close>. The list \<open>neutral_exclusions\<close> it first reads from \<open>other_tariffs\<close> is
  only logged: the name is bound to \<open>[]\<close> again before the loop over the excluded
  penalties, and then filled from the key \<open>neutral_exclusions\<close> of each of these.
\<close>

definition get_data :: "report_data \<Rightarrow> py_error + tariff_data" where
  "get_data report_results =
     (let special = special_programs_info report_results;
          ot = other_tariffs report_results;
          basic_rate =
            (case applicable_programs special of
               prog # _ \<Rightarrow> program_rate prog
             | [] \<Rightarrow>
                (case primary_info report_results of
                   PrimaryInfo info \<Rightarrow> column_1_rate info
                 | PrimaryInfoError _ \<Rightarrow> Some ''0%''))
      in case collect (\<lambda>p. rated (item_label p) (item_code p) (item_rate p))
                (ot_active_penalties ot) of
           Inl e \<Rightarrow> Inl e
         | Inr penalties \<Rightarrow>
            (case collect excluded_step (ot_excluded_penalties ot) of
               Inl e \<Rightarrow> Inl e
             | Inr steps \<Rightarrow>
                 Inr \<lparr>td_basic_rate = basic_rate,
                      td_penalties = penalties,
                      td_excluded_penalties = map fst steps,
                      td_potential_exclusions = concat (map (\<lambda>s. fst (snd s)) steps),
                      td_neutral_exclusions = concat (map (\<lambda>s. snd (snd s)) steps)\<rparr>))"

text \<open>
  One of the summing loops: each value goes through \<open>float(v.replace('%', ''))\<close>, and a
  ValueError is passed over.
\<close>

definition add_rate_values :: "string list \<Rightarrow> pyfloat \<Rightarrow> pyfloat" where
  "add_rate_values vs acc =
     fold (\<lambda>v a. case py_float (strip_percent v) of None \<Rightarrow> a | Some x \<Rightarrow> fadd a x) vs acc"

text \<open>
  The value of \<open>basic_rate_value\<close>. A rate that is not a string fails the \<open>isinstance\<close>
  test and reaches \<open>extract_values\<close>; the conversion of the first token is outside any
  handler.
\<close>

definition basic_rate_value :: "string option \<Rightarrow> py_error + pyfloat" where
  "basic_rate_value basic_rate_str =
     (if (case basic_rate_str of None \<Rightarrow> False | Some s \<Rightarrow> py_lower s = ''free'')
      then Inr (Finite 0)
      else
        (case extract_values basic_rate_str of
           Inl e \<Rightarrow> Inl e
         | Inr [] \<Rightarrow> Inr (Finite 0)
         | Inr (v # _) \<Rightarrow>
            (case py_float (strip_percent v) of
               None \<Rightarrow> Inl ValueError
             | Some x \<Rightarrow> Inr x)))"

text \<open>The three accumulators of \<open>calculate_total_tariff\<close> when the loops are done.\<close>

definition total_rate_acc :: "tariff_data \<Rightarrow> pyfloat \<Rightarrow> pyfloat" where
  "total_rate_acc td basic = add_rate_values (td_neutral_exclusions td) (fadd (Finite 0) basic)"

definition active_total_rate :: "tariff_data \<Rightarrow> pyfloat" where
  "active_total_rate td =
     fold (\<lambda>p a. add_rate_values (rate_values p) a) (td_penalties td) (Finite 0)"

definition excluded_total_rate :: "tariff_data \<Rightarrow> pyfloat" where
  "excluded_total_rate td =
     fold (\<lambda>p a. add_rate_values (rate_values p) a) (td_excluded_penalties td) (Finite 0)"

record total_rate =
  duty_rate :: string
  total_duties :: pyfloat
  total_cost :: pyfloat

text \<open>
  \<open>calculate_total_tariff\<close>; \<open>request_base_cost\<close> is the \<open>request.base_cost\<close> the closure
  reads for the last sum.
\<close>

definition calculate_total_tariff ::
  "pyfloat \<Rightarrow> tariff_data \<Rightarrow> pyfloat \<Rightarrow> py_error + total_rate" where
  "calculate_total_tariff request_base_cost td base_cost =
     (case basic_rate_value (td_basic_rate td) of
        Inl e \<Rightarrow> Inl e
      | Inr basic \<Rightarrow>
         (let rate = fadd (fadd (total_rate_acc td basic) (active_total_rate td))
                       (excluded_total_rate td);
              cost = fmul base_cost (fdiv_by rate 100)
          in Inr \<lparr>duty_rate = format_2f rate @ ''%'',
                  total_duties = cost,
                  total_cost = fadd cost request_base_cost\<rparr>))"

section \<open>The request handler (route.py)\<close>

record request =
  req_hts_code :: string
  req_country :: "string list"
  req_entry_date :: date
  req_loading_date :: "date option"
  req_mode_of_transport :: "string list"
  req_base_cost :: pyfloat

datatype detail =
    InvalidMode
  | NoData
  | AnalysisFailed string
  | Unexpected py_error

datatype response =
    HTTPException nat detail
  | JSONResponse report_data tariff_data total_rate

text \<open>
  \<open>calculate_tariff_route\<close>, from the result of \<open>TariffLoader().fetch\<close> (\<open>None\<close> when the
  loader gives up) and the request to the printed diagnostics and the response. An
  exception other than HTTPException becomes status 500; so does the ValueError of
  \<open>JSONResponse\<close>, which renders its content at once and refuses a float that is an
  infinity or not a number.
\<close>

definition calculate_tariff_route :: "tariff list option \<Rightarrow> request \<Rightarrow> diagnostic list \<times> response" where
  "calculate_tariff_route fetched req =
     (case req_mode_of_transport req of
        [] \<Rightarrow> ([], HTTPException 500 (Unexpected IndexError))
      | mode # _ \<Rightarrow>
         (if py_upper mode \<notin> set [''ANY'', ''OCEAN'', ''AIR'', ''TRUCK'', ''RAIL'']
          then ([], HTTPException 400 InvalidMode)
          else
            (case fetched of
               None \<Rightarrow> ([], HTTPException 404 NoData)
             | Some [] \<Rightarrow> ([], HTTPException 404 NoData)
             | Some (r # rs) \<Rightarrow>
                (case req_country req of
                   [] \<Rightarrow> ([], HTTPException 500 (Unexpected IndexError))
                 | origin # _ \<Rightarrow>
                    (case analyze_tariffs (r # rs) origin (py_upper mode)
                            (req_entry_date req) (req_loading_date req) of
                       (ds, Inl e) \<Rightarrow> (ds, HTTPException 500 (Unexpected e))
                     | (ds, Inr (AnalysisError msg)) \<Rightarrow> (ds, HTTPException 400 (AnalysisFailed msg))
                     | (ds, Inr (Analysis a)) \<Rightarrow>
                        (let report_results = generate_report_data a origin
                         in case get_data report_results of
                              Inl e \<Rightarrow> (ds, HTTPException 500 (Unexpected e))
                            | Inr total_tariff \<Rightarrow>
                               (case calculate_total_tariff (req_base_cost req) total_tariff
                                       (req_base_cost req) of
                                  Inl e \<Rightarrow> (ds, HTTPException 500 (Unexpected e))
                                | Inr result \<Rightarrow>
                                   (if json_compliant (total_duties result)
                                       \<and> json_compliant (total_cost result)
                                    then (ds, JSONResponse report_results total_tariff result)
                                    else (ds, HTTPException 500 (Unexpected ValueError))))))))))"

section \<open>Notions used in the statements, and sample records\<close>

text \<open>
  Two conditions are the same up to the transport value when they are equal, or the
  first is a \<open>MODE_OF_TRANSPORT\<close> condition and the second differs from it in
  \<open>fieldShouldEqual\<close> only.
\<close>

definition same_but_transport_value :: "condition \<Rightarrow> condition \<Rightarrow> bool" where
  "same_but_transport_value c c' =
     (c' = c \<or> (fieldKey c = Some ''MODE_OF_TRANSPORT''
                \<and> c' = c\<lparr>fieldShouldEqual := fieldShouldEqual c'\<rparr>))"

text \<open>A record in force during 2024 with nothing else set, and a condition with no key.\<close>

definition blank_tariff :: tariff where
  "blank_tariff =
     \<lparr>rec_type = None, code = None, label = None, rateDescription = NoKey,
      fullDescription = None, rateInfo = Some Absent,
      effectiveFrom = Parsed (2024, 1, 1), effectiveTo = Parsed (2024, 12, 31),
      countriesOfOrigin = [], applicabilityConditions = [], excludedByCodes = [],
      priority = None, requiresUserChoice = None, specialRates = []\<rparr>"

definition blank_condition :: condition where
  "blank_condition =
     \<lparr>fieldKey = None, typename = None, fieldShouldEqual = None,
      threshold = Absent, lowerBound = Absent, upperBound = Absent\<rparr>"

text \<open>
  The resolver's view of a record: a penalty has a positive penalty rate, an exclusion a
  zero or absent one. A penalty is marked excluded when one of its \<open>excludedByCodes\<close>
  is the code of an exclusion of the list. The excluded bucket of an output is every
  record held by an entry of \<open>excluded_penalties\<close>, the penalty or one of its exclusions.
\<close>

definition is_penalty :: "tariff \<Rightarrow> bool" where
  "is_penalty c = (case float_penalty_rate c of Inl _ \<Rightarrow> False | Inr r \<Rightarrow> 0 < r)"

definition is_exclusion :: "tariff \<Rightarrow> bool" where
  "is_exclusion c = (case float_penalty_rate c of Inl _ \<Rightarrow> False | Inr r \<Rightarrow> r = 0)"

definition marked_excluded :: "tariff list \<Rightarrow> tariff \<Rightarrow> bool" where
  "marked_excluded ts p =
     list_ex (\<lambda>x. case x of None \<Rightarrow> False
                  | Some c \<Rightarrow> list_ex (\<lambda>e. is_exclusion e \<and> code e = Some c) ts)
       (excludedByCodes p)"

definition excluded_bucket :: "processed \<Rightarrow> tariff set" where
  "excluded_bucket out =
     (\<Union>kv \<in> set (excluded_penalties out). insert (penalty (snd kv)) (set (exclusions (snd kv))))"

text \<open>
  The closed forms of the inner loop: whether a list of \<open>excludedByCodes\<close> meets the set
  of exclusion codes, the exclusions it collects, and the entry stored for a penalty.
\<close>

definition meets_codes :: "string set \<Rightarrow> string option list \<Rightarrow> bool" where
  "meets_codes S xs = list_ex (\<lambda>x. case x of None \<Rightarrow> False | Some c \<Rightarrow> c \<in> S) xs"

definition matching_group :: "tariff list \<Rightarrow> string set \<Rightarrow> string option list \<Rightarrow> tariff list" where
  "matching_group E S xs =
     concat (map (\<lambda>x. case x of None \<Rightarrow> []
                      | Some c \<Rightarrow> if c \<in> S then filter (\<lambda>e. code e = Some c) E else []) xs)"

definition entry_of :: "tariff list \<Rightarrow> string set \<Rightarrow> tariff \<Rightarrow> excluded_entry" where
  "entry_of E S p = \<lparr>penalty = p, exclusions = matching_group E S (excludedByCodes p)\<rparr>"

text \<open>
  The floats of a list of tokens (a token \<open>float\<close> rejects gives none), the sum of a list
  of floats from the left, starting at zero, and the formula of the specification with
  that sum: the basic accumulator, the two totals and the duty rate.
\<close>

definition token_floats :: "string list \<Rightarrow> pyfloat list" where
  "token_floats vs = List.map_filter (\<lambda>v. py_float (strip_percent v)) vs"

definition spec_basic_accumulator :: "tariff_data \<Rightarrow> pyfloat \<Rightarrow> pyfloat" where
  "spec_basic_accumulator td basic =
     foldl fadd (fadd (Finite 0) basic) (token_floats (td_neutral_exclusions td))"

definition spec_active_total :: "tariff_data \<Rightarrow> pyfloat" where
  "spec_active_total td =
     foldl fadd (Finite 0) (token_floats (concat (map rate_values (td_penalties td))))"

definition spec_excluded_total :: "tariff_data \<Rightarrow> pyfloat" where
  "spec_excluded_total td =
     foldl fadd (Finite 0) (token_floats (concat (map rate_values (td_excluded_penalties td))))"

definition spec_duty_rate :: "tariff_data \<Rightarrow> pyfloat \<Rightarrow> pyfloat" where
  "spec_duty_rate td basic =
     fadd (fadd (spec_basic_accumulator td basic) (spec_active_total td)) (spec_excluded_total td)"

text \<open>The tokens of a rate of the report, none for a rate that is not a string.\<close>

definition rate_tokens :: "string option \<Rightarrow> string list" where
  "rate_tokens r = (case r of None \<Rightarrow> [] | Some s \<Rightarrow> findall_numbers s)"

text \<open>The parts of a successful response, and a sample request.\<close>

definition response_total :: "response \<Rightarrow> total_rate option" where
  "response_total r = (case r of JSONResponse _ _ t \<Rightarrow> Some t | HTTPException _ _ \<Rightarrow> None)"

definition response_report :: "response \<Rightarrow> report_data option" where
  "response_report r = (case r of JSONResponse d _ _ \<Rightarrow> Some d | HTTPException _ _ \<Rightarrow> None)"

definition blank_request :: request where
  "blank_request =
     \<lparr>req_hts_code = ''8708945000'', req_country = [''CN''], req_entry_date = (2024, 6, 1),
      req_loading_date = None, req_mode_of_transport = [''any''], req_base_cost = Finite 0\<rparr>"

text \<open>
  Sample records: two penalties with the same code, both excluded by \<open>9903.88.69\<close>; two
  exclusions with that code; a record with a negative penalty rate; a penalty that
  nothing excludes and an exclusion that nothing references.
\<close>

definition pen_first :: tariff where
  "pen_first = blank_tariff\<lparr>code := Some ''9903.88.01'', label := Some ''first'',
     rateDescription := Text ''25%'', rateInfo := Some (Parsed 25),
     excludedByCodes := [Some ''9903.88.69'']\<rparr>"

definition pen_second :: tariff where
  "pen_second = blank_tariff\<lparr>code := Some ''9903.88.01'', label := Some ''second'',
     rateDescription := Text ''10%'', rateInfo := Some (Parsed 10),
     excludedByCodes := [Some ''9903.88.69'']\<rparr>"

definition excl_a :: tariff where
  "excl_a = blank_tariff\<lparr>code := Some ''9903.88.69'', label := Some ''exclusion a''\<rparr>"

definition excl_b :: tariff where
  "excl_b = blank_tariff\<lparr>code := Some ''9903.88.69'', label := Some ''exclusion b''\<rparr>"

definition negative_rate :: tariff where
  "negative_rate = blank_tariff\<lparr>code := Some ''9903.00.00'', rateInfo := Some (Parsed (- 1))\<rparr>"

definition pen_plain :: tariff where
  "pen_plain = blank_tariff\<lparr>code := Some ''9903.01.24'', label := Some ''plain'',
     rateDescription := Text ''10%'', rateInfo := Some (Parsed 10)\<rparr>"

definition excl_other :: tariff where
  "excl_other = blank_tariff\<lparr>code := Some ''9903.01.99'', label := Some ''other exclusion''\<rparr>"

text \<open>
  A sample report, one active penalty at 25% on a primary rate of 0%, and what
  \<open>get_data\<close> makes of it.
\<close>

definition sample_report :: report_data where
  "sample_report =
     \<lparr>primary_info = PrimaryInfo
        \<lparr>hts_code = ''8708945000'', description = ''N/A'', column_1_rate = Some ''0%'',
         column_2_rate = ''15% (Rate applies to Cuba & North Korea)'',
         column_2_note = ''Column 2 rate is not in the Flexport API file, it was retrieved from USITC data.''\<rparr>,
      special_programs_info =
        \<lparr>sp_country = ''CN'',
         sp_message = Some ''No special trade programs (e.g., GSP, FTAs) found for this country.'',
         applicable_programs = []\<rparr>,
      other_tariffs =
        \<lparr>ot_active_penalties =
           [\<lparr>item_label = ''plain'', item_code = ''9903.01.24'', item_rate = Some ''25%''\<rparr>],
         ot_excluded_penalties = [], ot_neutral_exclusions = [], ot_message = None\<rparr>\<rparr>"

definition sample_tariff_data :: tariff_data where
  "sample_tariff_data =
     \<lparr>td_basic_rate = Some ''0%'',
      td_penalties = [\<lparr>rated_label = ''plain'', rated_code = ''9903.01.24'', rate_values = [''25%'']\<rparr>],
      td_excluded_penalties = [], td_potential_exclusions = [], td_neutral_exclusions = []\<rparr>"

text \<open>The outputs of the resolver on the sample lists used below.\<close>

definition sample_group_output :: processed where
  "sample_group_output =
     \<lparr>applicable_penalties = [],
      excluded_penalties = [(''9903.88.01'', \<lparr>penalty = pen_first, exclusions = [excl_a, excl_b]\<rparr>)],
      neutral_exclusions = []\<rparr>"

definition sample_overwrite_output :: processed where
  "sample_overwrite_output =
     \<lparr>applicable_penalties = [],
      excluded_penalties = [(''9903.88.01'', \<lparr>penalty = pen_second, exclusions = [excl_a]\<rparr>)],
      neutral_exclusions = []\<rparr>"

definition sample_mixed_output :: processed where
  "sample_mixed_output =
     \<lparr>applicable_penalties = [pen_plain],
      excluded_penalties = [(''9903.88.01'', \<lparr>penalty = pen_first, exclusions = [excl_a]\<rparr>)],
      neutral_exclusions = [excl_other]\<rparr>"

section \<open>Properties of the applicability evaluator\<close>

lemma is_code_applicable_cong:
  "effectiveFrom a = effectiveFrom b \<Longrightarrow> effectiveTo a = effectiveTo b \<Longrightarrow>
   countriesOfOrigin a = countriesOfOrigin b \<Longrightarrow> code a = code b \<Longrightarrow>
   check_conditions (applicabilityConditions a) tr ld
     = check_conditions (applicabilityConditions b) tr ld \<Longrightarrow>
   is_code_applicable a co tr en ld = is_code_applicable b co tr en ld"
  by (simp add: is_code_applicable_def applicable_body_def split: sum.splits prod.splits)

text \<open>
  Claim C5. With both dates readable, an entry date before \<open>effectiveFrom\<close> or after
  \<open>effectiveTo\<close> makes the record inapplicable. Both bounds are inclusive: for an entry
  date inside the closed window the answer is the one the record would get with the
  window shrunk to that single day, so only the country and condition checks decide;
  and a record without countries and conditions is applicable exactly on the days of
  the closed window.
\<close>

theorem effective_window_inclusive:
  assumes "effectiveFrom c = Parsed from_date" and "effectiveTo c = Parsed to_date"
  shows "(entry_date < from_date \<or> to_date < entry_date \<longrightarrow>
            is_code_applicable c country transport entry_date loading_date = Inr (False, []))
       \<and> (from_date \<le> entry_date \<and> entry_date \<le> to_date \<longrightarrow>
            is_code_applicable c country transport entry_date loading_date =
            is_code_applicable (c\<lparr>effectiveFrom := Parsed entry_date, effectiveTo := Parsed entry_date\<rparr>)
              country transport entry_date loading_date)
       \<and> (countriesOfOrigin c = [] \<and> applicabilityConditions c = [] \<longrightarrow>
            is_code_applicable c country transport entry_date loading_date =
              Inr (from_date \<le> entry_date \<and> entry_date \<le> to_date, []))"
  using assms
  by (auto simp: is_code_applicable_def applicable_body_def split: sum.splits prod.splits)

theorem effective_window_inclusive_witness:
  "is_code_applicable blank_tariff ''CN'' ''ANY'' (2024, 1, 1) None = Inr (True, [])
   \<and> is_code_applicable blank_tariff ''CN'' ''ANY'' (2024, 12, 31) None = Inr (True, [])
   \<and> is_code_applicable blank_tariff ''CN'' ''ANY'' (2023, 12, 31) None = Inr (False, [])
   \<and> is_code_applicable blank_tariff ''CN'' ''ANY'' (2025, 1, 1) None = Inr (False, [])"
proof -
  have f: "effectiveFrom blank_tariff = Parsed (2024, 1, 1)"
    and t: "effectiveTo blank_tariff = Parsed (2024, 12, 31)"
    and n: "countriesOfOrigin blank_tariff = [] \<and> applicabilityConditions blank_tariff = []"
    by (simp_all add: blank_tariff_def)
  note outside = effective_window_inclusive[OF f t, THEN conjunct1, rule_format]
  note inside = effective_window_inclusive[OF f t, THEN conjunct2, THEN conjunct2, rule_format, OF n]
  have "is_code_applicable blank_tariff ''CN'' ''ANY'' (2023, 12, 31) None = Inr (False, [])"
    by (rule outside) simp
  moreover have "is_code_applicable blank_tariff ''CN'' ''ANY'' (2025, 1, 1) None = Inr (False, [])"
    by (rule outside) simp
  ultimately show ?thesis by (simp add: inside)
qed

lemma check_conditions_no_loading:
  "c \<in> set cs \<Longrightarrow> fieldKey c = Some ''DATE_OF_LOADING'' \<Longrightarrow>
   check_conditions cs transport None = Inr (False, [])"
  by (induction cs) auto

lemma applicable_false_of_conditions:
  assumes "check_conditions (applicabilityConditions c) transport ld = Inr (False, ds)"
  shows "\<forall>ds'. is_code_applicable c co transport en ld \<noteq> Inr (True, ds')"
    and "effectiveFrom c \<noteq> NotText \<and> effectiveTo c \<noteq> NotText \<longrightarrow>
           (\<exists>ds'. is_code_applicable c co transport en ld = Inr (False, ds'))"
proof -
  show "\<forall>ds'. is_code_applicable c co transport en ld \<noteq> Inr (True, ds')"
    using assms
    by (auto simp: is_code_applicable_def applicable_body_def split: sum.splits prod.splits if_splits)
  show "effectiveFrom c \<noteq> NotText \<and> effectiveTo c \<noteq> NotText \<longrightarrow>
           (\<exists>ds'. is_code_applicable c co transport en ld = Inr (False, ds'))"
  proof
    assume t: "effectiveFrom c \<noteq> NotText \<and> effectiveTo c \<noteq> NotText"
    have k: "caught e" if "any_country cs co = Inl e" for cs e
      using that by (induction cs co rule: any_country.induct) (auto split: if_splits)
    show "\<exists>ds'. is_code_applicable c co transport en ld = Inr (False, ds')"
      using assms t k
      by (cases "effectiveFrom c"; cases "effectiveTo c")
         (auto simp: is_code_applicable_def applicable_body_def split: sum.splits prod.splits)
  qed
qed

text \<open>
  Claim C9. A record that carries a \<open>DATE_OF_LOADING\<close> condition is inapplicable when
  the shipment has no loading date, whatever the kind (\<open>__typename\<close>) of the condition
  and whatever else the record holds: the check never answers \<open>True\<close>, and it answers
  \<open>False\<close> unless one of the two effective dates holds a value that is not a string, the
  one case where an exception leaves the check before the conditions are read.
\<close>

theorem loading_condition_without_date:
  assumes "cond \<in> set (applicabilityConditions c)"
    and "fieldKey cond = Some ''DATE_OF_LOADING''"
  shows "(\<forall>ds. is_code_applicable c country transport entry_date None \<noteq> Inr (True, ds))
       \<and> (effectiveFrom c \<noteq> NotText \<and> effectiveTo c \<noteq> NotText \<longrightarrow>
            (\<exists>ds. is_code_applicable c country transport entry_date None = Inr (False, ds)))"
  using applicable_false_of_conditions[OF check_conditions_no_loading[OF assms]] by blast

theorem loading_condition_without_date_witness:
  "\<exists>ds. is_code_applicable
     (blank_tariff\<lparr>applicabilityConditions :=
        [blank_condition\<lparr>fieldKey := Some ''DATE_OF_LOADING'',
           typename := Some ''CustomsTariffGreater'', threshold := Parsed (2024, 2, 1)\<rparr>]\<rparr>)
     ''CN'' ''OCEAN'' (2024, 6, 1) None = Inr (False, ds)"
proof -
  have "effectiveFrom (blank_tariff\<lparr>applicabilityConditions :=
        [blank_condition\<lparr>fieldKey := Some ''DATE_OF_LOADING'',
           typename := Some ''CustomsTariffGreater'', threshold := Parsed (2024, 2, 1)\<rparr>]\<rparr>) \<noteq> NotText
      \<and> effectiveTo (blank_tariff\<lparr>applicabilityConditions :=
        [blank_condition\<lparr>fieldKey := Some ''DATE_OF_LOADING'',
           typename := Some ''CustomsTariffGreater'', threshold := Parsed (2024, 2, 1)\<rparr>]\<rparr>) \<noteq> NotText"
    by (simp add: blank_tariff_def)
  then show ?thesis
    by (rule loading_condition_without_date
          [where cond = "blank_condition\<lparr>fieldKey := Some ''DATE_OF_LOADING'',
             typename := Some ''CustomsTariffGreater'', threshold := Parsed (2024, 2, 1)\<rparr>",
           THEN conjunct2, rule_format, rotated 2])
       simp_all
qed

lemma check_conditions_any:
  "list_all2 same_but_transport_value cs cs' \<Longrightarrow>
   check_conditions cs ''ANY'' ld = check_conditions cs' ''ANY'' ld"
proof (induction cs cs' rule: list_all2_induct)
  case Nil
  then show ?case by simp
next
  case (Cons c cs c' cs')
  from Cons.hyps(1) have "c' = c \<or>
      (fieldKey c = Some ''MODE_OF_TRANSPORT'' \<and> (\<exists>v. c' = c\<lparr>fieldShouldEqual := v\<rparr>))"
    unfolding same_but_transport_value_def by blast
  then show ?case
  proof (elim disjE conjE exE)
    assume "c' = c"
    then show ?thesis using Cons.IH by (auto split: option.splits sum.splits)
  next
    fix v assume "fieldKey c = Some ''MODE_OF_TRANSPORT''" "c' = c\<lparr>fieldShouldEqual := v\<rparr>"
    then show ?thesis using Cons.IH by simp
  qed
qed

text \<open>
  Claim C8. With transport \<open>ANY\<close>, replacing the \<open>fieldShouldEqual\<close> value of any of the
  \<open>MODE_OF_TRANSPORT\<close> conditions of a record changes neither the answer of the
  applicability check nor what it prints.
\<close>

theorem transport_any_ignores_field_value:
  assumes "list_all2 same_but_transport_value cs cs'"
  shows "is_code_applicable (r\<lparr>applicabilityConditions := cs\<rparr>) co ''ANY'' en ld
       = is_code_applicable (r\<lparr>applicabilityConditions := cs'\<rparr>) co ''ANY'' en ld"
  using check_conditions_any[OF assms, of ld]
  by (intro is_code_applicable_cong) simp_all

theorem transport_any_ignores_field_value_witness:
  "is_code_applicable
     (blank_tariff\<lparr>applicabilityConditions :=
        [blank_condition\<lparr>fieldKey := Some ''MODE_OF_TRANSPORT'', fieldShouldEqual := Some ''OCEAN''\<rparr>]\<rparr>)
     ''CN'' ''ANY'' (2024, 6, 1) None
   = is_code_applicable
     (blank_tariff\<lparr>applicabilityConditions :=
        [blank_condition\<lparr>fieldKey := Some ''MODE_OF_TRANSPORT'', fieldShouldEqual := Some ''AIR''\<rparr>]\<rparr>)
     ''CN'' ''ANY'' (2024, 6, 1) None"
  by (rule transport_any_ignores_field_value)
     (simp add: same_but_transport_value_def blank_condition_def)

section \<open>Properties of the analysis\<close>

lemma analyze_no_primary:
  "\<forall>c \<in> set raw_data. rec_type c \<noteq> Some ''COMMODITY_CODE'' \<Longrightarrow>
   analyze_tariffs raw_data co tr en ld = ([], Inr (AnalysisError ''No primary COMMODITY_CODE found.''))"
  by (simp add: analyze_tariffs_def find_None_iff[THEN iffD2])

lemma unreadable_date_is_caught:
  assumes "effectiveFrom r \<in> {Absent, Malformed}
           \<or> (\<exists>d. effectiveFrom r = Parsed d) \<and> effectiveTo r \<in> {Absent, Malformed}"
  shows "\<exists>e. is_code_applicable r co tr en ld = Inr (False, [ApplicabilityWarning (code r) e])"
  using assms
  by (cases "effectiveFrom r"; cases "effectiveTo r")
     (auto simp: is_code_applicable_def applicable_body_def)

lemma null_date_escapes:
  assumes "effectiveFrom r = NotText \<or> (\<exists>d. effectiveFrom r = Parsed d) \<and> effectiveTo r = NotText"
  shows "is_code_applicable r co tr en ld = Inl AttributeError"
  using assms by (auto simp: is_code_applicable_def applicable_body_def)

text \<open>
  Claim C4 fails on the code when the date is there but is not a string (JSON \<open>null\<close>):
  \<open>replace\<close> raises AttributeError, which the handler for KeyError and ValueError lets
  through. The check raises, no other record is evaluated and the request ends with
  status 500, although a valid record follows in the snapshot. An absent date and an
  unreadable one are answered as the claim says, with \<open>False\<close> and one warning.
\<close>

theorem null_date_raises:
  "is_code_applicable (blank_tariff\<lparr>effectiveTo := NotText\<rparr>) ''CN'' ''ANY'' (2024, 6, 1) None
     = Inl AttributeError
   \<and> calculate_tariff_route
        (Some [blank_tariff\<lparr>rec_type := Some ''COMMODITY_CODE'', rateDescription := Text ''5%''\<rparr>,
               blank_tariff\<lparr>code := Some ''9903.88.01'', effectiveTo := NotText\<rparr>,
               pen_plain])
        blank_request
     = ([], HTTPException 500 (Unexpected AttributeError))
   \<and> is_code_applicable (blank_tariff\<lparr>effectiveTo := Absent\<rparr>) ''CN'' ''ANY'' (2024, 6, 1) None
     = Inr (False, [ApplicabilityWarning None (KeyError ''effectiveTo'')])
   \<and> is_code_applicable (blank_tariff\<lparr>effectiveTo := Malformed\<rparr>) ''CN'' ''ANY'' (2024, 6, 1) None
     = Inr (False, [ApplicabilityWarning None ValueError])"
  by (simp add: calculate_tariff_route_def analyze_tariffs_def is_code_applicable_def
        applicable_body_def blank_tariff_def blank_request_def pen_plain_def py_upper_def)

text \<open>
  Claim C7. For a snapshot without a record of type \<open>COMMODITY_CODE\<close> the analysis
  returns the error dictionary as a value, raises nothing and prints nothing; the
  request handler then ends with an HTTP error whatever the request is, status 400
  with the reason of the analysis when the request itself is in order, and never with a
  report.
\<close>

theorem missing_primary_is_error_value:
  assumes "\<forall>c \<in> set raw_data. rec_type c \<noteq> Some ''COMMODITY_CODE''"
  shows "analyze_tariffs raw_data co tr en ld = ([], Inr (AnalysisError ''No primary COMMODITY_CODE found.''))
       \<and> (\<exists>status d. calculate_tariff_route (Some raw_data) req = ([], HTTPException status d))
       \<and> (raw_data \<noteq> [] \<and> req_country req \<noteq> [] \<and> req_mode_of_transport req \<noteq> []
            \<and> py_upper (hd (req_mode_of_transport req)) \<in> set [''ANY'', ''OCEAN'', ''AIR'', ''TRUCK'', ''RAIL'']
          \<longrightarrow> calculate_tariff_route (Some raw_data) req =
                ([], HTTPException 400 (AnalysisFailed ''No primary COMMODITY_CODE found.'')))"
proof -
  note a = analyze_no_primary[OF assms]
  have r: "calculate_tariff_route (Some raw_data) req =
     (case req_mode_of_transport req of
        [] \<Rightarrow> ([], HTTPException 500 (Unexpected IndexError))
      | mode # _ \<Rightarrow>
         (if py_upper mode \<notin> set [''ANY'', ''OCEAN'', ''AIR'', ''TRUCK'', ''RAIL'']
          then ([], HTTPException 400 InvalidMode)
          else if raw_data = [] then ([], HTTPException 404 NoData)
          else if req_country req = [] then ([], HTTPException 500 (Unexpected IndexError))
          else ([], HTTPException 400 (AnalysisFailed ''No primary COMMODITY_CODE found.''))))"
  proof (cases raw_data)
    case Nil
    then show ?thesis by (simp add: calculate_tariff_route_def split: list.splits)
  next
    case (Cons x xs)
    have "analyze_tariffs (x # xs) co tr en ld = ([], Inr (AnalysisError ''No primary COMMODITY_CODE found.''))"
      for co tr en ld using a[of co tr en ld] Cons by simp
    then show ?thesis using Cons by (simp add: calculate_tariff_route_def split: list.splits)
  qed
  have "\<exists>status d. calculate_tariff_route (Some raw_data) req = ([], HTTPException status d)"
    unfolding r by (simp split: list.splits)
  moreover have "raw_data \<noteq> [] \<and> req_country req \<noteq> [] \<and> req_mode_of_transport req \<noteq> []
            \<and> py_upper (hd (req_mode_of_transport req)) \<in> set [''ANY'', ''OCEAN'', ''AIR'', ''TRUCK'', ''RAIL'']
          \<longrightarrow> calculate_tariff_route (Some raw_data) req =
                ([], HTTPException 400 (AnalysisFailed ''No primary COMMODITY_CODE found.''))"
    unfolding r by (cases "req_mode_of_transport req") simp_all
  ultimately show ?thesis using a by blast
qed

theorem missing_primary_is_error_value_witness:
  "analyze_tariffs [blank_tariff] ''CN'' ''ANY'' (2024, 6, 1) None
     = ([], Inr (AnalysisError ''No primary COMMODITY_CODE found.''))
   \<and> calculate_tariff_route (Some [blank_tariff]) blank_request
     = ([], HTTPException 400 (AnalysisFailed ''No primary COMMODITY_CODE found.''))"
  using missing_primary_is_error_value[where raw_data = "[blank_tariff]" and co = "''CN''"
          and tr = "''ANY''" and en = "(2024, 6, 1)" and ld = None and req = blank_request]
  by (simp add: blank_tariff_def blank_request_def py_upper_def)

section \<open>Properties of the resolver\<close>

lemma meets_codes_iff: "meets_codes S xs \<longleftrightarrow> (\<exists>c \<in> S. Some c \<in> set xs)"
  unfolding meets_codes_def list_ex_iff by (auto split: option.splits)

lemma scan_closed:
  "scan_excluded_by E S xs (b, m, u) =
     (b \<or> meets_codes S xs, m @ matching_group E S xs, u \<union> {c \<in> S. Some c \<in> set xs})"
proof (induction xs arbitrary: b m u)
  case Nil
  then show ?case by (simp add: meets_codes_def matching_group_def)
next
  case (Cons x xs)
  show ?case
  proof (cases x)
    case None
    then show ?thesis using Cons.IH[of b m u] by (auto simp: meets_codes_def matching_group_def)
  next
    case (Some c)
    then show ?thesis
      using Cons.IH[of True "m @ filter (\<lambda>e. code e = Some c) E" "insert c u"] Cons.IH[of b m u]
      by (auto simp: meets_codes_def matching_group_def)
  qed
qed

lemma link_step:
  "code p = Some k \<Longrightarrow>
   link_penalties E S (p # ps) (f, ex, u) =
     (if meets_codes S (excludedByCodes p)
      then link_penalties E S ps
             (f, AList.update k (entry_of E S p) ex, u \<union> {c \<in> S. Some c \<in> set (excludedByCodes p)})
      else link_penalties E S ps (f @ [p], ex, u \<union> {c \<in> S. Some c \<in> set (excludedByCodes p)}))"
  by (simp add: scan_closed entry_of_def)

lemma link_None: "code p = None \<Longrightarrow> link_penalties E S (p # ps) (f, ex, u) = Inl (KeyError ''code'')"
  by simp

lemma link_final_used:
  "link_penalties E S ps (f, ex, u) = Inr (f', ex', u') \<Longrightarrow>
   f' = f @ filter (\<lambda>p. \<not> meets_codes S (excludedByCodes p)) ps
   \<and> u' = u \<union> {c \<in> S. \<exists>p \<in> set ps. Some c \<in> set (excludedByCodes p)}
   \<and> (\<forall>p \<in> set ps. code p \<noteq> None)"
proof (induction ps arbitrary: f ex u)
  case Nil
  then show ?case by simp
next
  case (Cons p ps)
  then obtain k where k: "code p = Some k" by (cases "code p") auto
  show ?case
  proof (cases "meets_codes S (excludedByCodes p)")
    case True
    with Cons.prems k have
      "link_penalties E S ps
         (f, AList.update k (entry_of E S p) ex, u \<union> {c \<in> S. Some c \<in> set (excludedByCodes p)})
       = Inr (f', ex', u')" by (simp add: link_step del: link_penalties.simps)
    from Cons.IH[OF this] True k show ?thesis by auto
  next
    case False
    with Cons.prems k have
      "link_penalties E S ps (f @ [p], ex, u \<union> {c \<in> S. Some c \<in> set (excludedByCodes p)})
       = Inr (f', ex', u')" by (simp add: link_step del: link_penalties.simps)
    from Cons.IH[OF this] False k show ?thesis by auto
  qed
qed

lemma link_entries:
  "link_penalties E S ps (f, ex, u) = Inr (f', ex', u') \<Longrightarrow>
   map_of ex' k = Some en \<Longrightarrow>
   map_of ex k = Some en
   \<or> (\<exists>p \<in> set ps. meets_codes S (excludedByCodes p) \<and> code p = Some k \<and> en = entry_of E S p)"
proof (induction ps arbitrary: f ex u)
  case Nil
  then show ?case by simp
next
  case (Cons p ps)
  then obtain j where j: "code p = Some j" by (cases "code p") auto
  show ?case
  proof (cases "meets_codes S (excludedByCodes p)")
    case True
    with Cons.prems(1) j have
      "link_penalties E S ps
         (f, AList.update j (entry_of E S p) ex, u \<union> {c \<in> S. Some c \<in> set (excludedByCodes p)})
       = Inr (f', ex', u')" by (simp add: link_step del: link_penalties.simps)
    from Cons.IH[OF this Cons.prems(2)] True j show ?thesis
      by (auto simp: update_conv' split: if_splits)
  next
    case False
    with Cons.prems(1) j have
      "link_penalties E S ps (f @ [p], ex, u \<union> {c \<in> S. Some c \<in> set (excludedByCodes p)})
       = Inr (f', ex', u')" by (simp add: link_step del: link_penalties.simps)
    from Cons.IH[OF this Cons.prems(2)] show ?thesis by auto
  qed
qed

lemma link_key_unchanged:
  "link_penalties E S ps (f, ex, u) = Inr (f', ex', u') \<Longrightarrow>
   \<forall>z \<in> set ps. meets_codes S (excludedByCodes z) \<longrightarrow> code z \<noteq> Some k \<Longrightarrow>
   map_of ex' k = map_of ex k"
proof (induction ps arbitrary: f ex u)
  case Nil
  then show ?case by simp
next
  case (Cons p ps)
  then obtain j where j: "code p = Some j" by (cases "code p") auto
  have rest: "\<forall>z \<in> set ps. meets_codes S (excludedByCodes z) \<longrightarrow> code z \<noteq> Some k"
    using Cons.prems(2) by simp
  show ?case
  proof (cases "meets_codes S (excludedByCodes p)")
    case True
    with Cons.prems(1) j have
      "link_penalties E S ps
         (f, AList.update j (entry_of E S p) ex, u \<union> {c \<in> S. Some c \<in> set (excludedByCodes p)})
       = Inr (f', ex', u')" by (simp add: link_step del: link_penalties.simps)
    from Cons.IH[OF this rest] have "map_of ex' k = map_of (AList.update j (entry_of E S p) ex) k" .
    moreover have "j \<noteq> k" using Cons.prems(2) True j by auto
    ultimately show ?thesis by (simp add: update_conv')
  next
    case False
    with Cons.prems(1) j have
      "link_penalties E S ps (f @ [p], ex, u \<union> {c \<in> S. Some c \<in> set (excludedByCodes p)})
       = Inr (f', ex', u')" by (simp add: link_step del: link_penalties.simps)
    from Cons.IH[OF this rest] show ?thesis .
  qed
qed

lemma link_distinct:
  "link_penalties E S ps (f, ex, u) = Inr (f', ex', u') \<Longrightarrow>
   distinct (map fst ex) \<Longrightarrow> distinct (map fst ex')"
proof (induction ps arbitrary: f ex u)
  case Nil
  then show ?case by simp
next
  case (Cons p ps)
  then obtain j where j: "code p = Some j" by (cases "code p") auto
  show ?case
  proof (cases "meets_codes S (excludedByCodes p)")
    case True
    with Cons.prems(1) j have
      "link_penalties E S ps
         (f, AList.update j (entry_of E S p) ex, u \<union> {c \<in> S. Some c \<in> set (excludedByCodes p)})
       = Inr (f', ex', u')" by (simp add: link_step del: link_penalties.simps)
    from Cons.IH[OF this] Cons.prems(2) show ?thesis by (simp add: distinct_update)
  next
    case False
    with Cons.prems(1) j have
      "link_penalties E S ps (f @ [p], ex, u \<union> {c \<in> S. Some c \<in> set (excludedByCodes p)})
       = Inr (f', ex', u')" by (simp add: link_step del: link_penalties.simps)
    from Cons.IH[OF this Cons.prems(2)] show ?thesis .
  qed
qed

lemma link_last_wins:
  "link_penalties E S (ps1 @ q # ps2) (f, ex, u) = Inr (f', ex', u') \<Longrightarrow>
   meets_codes S (excludedByCodes q) \<Longrightarrow> code q = Some k \<Longrightarrow>
   \<forall>z \<in> set ps2. meets_codes S (excludedByCodes z) \<longrightarrow> code z \<noteq> Some k \<Longrightarrow>
   map_of ex' k = Some (entry_of E S q)"
proof (induction ps1 arbitrary: f ex u)
  case Nil
  then have "link_penalties E S ps2
         (f, AList.update k (entry_of E S q) ex, u \<union> {c \<in> S. Some c \<in> set (excludedByCodes q)})
       = Inr (f', ex', u')" by (simp add: link_step del: link_penalties.simps)
  from link_key_unchanged[OF this Nil.prems(4)] show ?case by (simp add: update_conv')
next
  case (Cons p ps1)
  then obtain j where j: "code p = Some j" by (cases "code p") auto
  show ?case
  proof (cases "meets_codes S (excludedByCodes p)")
    case True
    with Cons.prems(1) j have
      "link_penalties E S (ps1 @ q # ps2)
         (f, AList.update j (entry_of E S p) ex, u \<union> {c \<in> S. Some c \<in> set (excludedByCodes p)})
       = Inr (f', ex', u')" by (simp add: link_step del: link_penalties.simps)
    from Cons.IH[OF this Cons.prems(2-4)] show ?thesis .
  next
    case False
    with Cons.prems(1) j have
      "link_penalties E S (ps1 @ q # ps2)
         (f @ [p], ex, u \<union> {c \<in> S. Some c \<in> set (excludedByCodes p)})
       = Inr (f', ex', u')" by (simp add: link_step del: link_penalties.simps)
    from Cons.IH[OF this Cons.prems(2-4)] show ?thesis .
  qed
qed

lemma select_by_rate_Inr:
  "select_by_rate t ts = Inr rs \<Longrightarrow>
   rs = filter (\<lambda>c. case float_penalty_rate c of Inl _ \<Rightarrow> False | Inr r \<Rightarrow> t r) ts"
  by (induction ts arbitrary: rs) (auto split: sum.splits)

lemma exclusion_codes_Inr:
  "exclusion_codes es = Inr ks \<Longrightarrow> map code es = map Some ks"
  by (induction es arbitrary: ks) (auto split: option.splits sum.splits)

lemma marked_excluded_iff:
  "marked_excluded ts p \<longleftrightarrow>
     (\<exists>c. Some c \<in> set (excludedByCodes p) \<and> (\<exists>e \<in> set ts. is_exclusion e \<and> code e = Some c))"
  unfolding marked_excluded_def list_ex_iff
  by (auto split: option.splits)

lemma penalty_not_exclusion: "is_penalty x \<Longrightarrow> \<not> is_exclusion x"
  by (auto simp: is_penalty_def is_exclusion_def split: sum.splits)

lemma matching_group_iff:
  "e \<in> set (matching_group E S xs) \<longleftrightarrow> e \<in> set E \<and> (\<exists>c \<in> S. Some c \<in> set xs \<and> code e = Some c)"
  unfolding matching_group_def by (auto split: option.splits if_splits)

text \<open>What a successful run of the resolver has computed.\<close>

lemma process_facts:
  assumes "process_other_tariffs ts = Inr out"
  obtains S ex u where
    "S = {c. \<exists>e \<in> set ts. is_exclusion e \<and> code e = Some c}"
    "\<forall>e \<in> set ts. is_exclusion e \<longrightarrow> code e \<noteq> None"
    "link_penalties (filter is_exclusion ts) S (filter is_penalty ts) ([], [], {})
       = Inr (applicable_penalties out, ex, u)"
    "excluded_penalties out = ex"
    "neutral_exclusions out =
       filter (\<lambda>e. case code e of None \<Rightarrow> True | Some k \<Rightarrow> k \<notin> u) (filter is_exclusion ts)"
proof -
  from assms obtain P E codes f ex u where
    P: "select_by_rate (\<lambda>r. r > 0) ts = Inr P" and E: "select_by_rate (\<lambda>r. r = 0) ts = Inr E"
    and c: "exclusion_codes E = Inr codes"
    and l: "link_penalties E (set codes) P ([], [], {}) = Inr (f, ex, u)"
    and o: "out = \<lparr>applicable_penalties = f, excluded_penalties = ex,
                   neutral_exclusions =
                     filter (\<lambda>e. case code e of None \<Rightarrow> True | Some k \<Rightarrow> k \<notin> u) E\<rparr>"
    unfolding process_other_tariffs_def by (auto split: sum.splits prod.splits)
  have P': "P = filter is_penalty ts"
    using select_by_rate_Inr[OF P] by (simp add: is_penalty_def[abs_def])
  have E': "E = filter is_exclusion ts"
    using select_by_rate_Inr[OF E] by (simp add: is_exclusion_def[abs_def])
  have m: "map code E = map Some codes" using c by (rule exclusion_codes_Inr)
  have S: "set codes = {c. \<exists>e \<in> set ts. is_exclusion e \<and> code e = Some c}"
  proof -
    have "Some ` set codes = code ` set E" using m by (metis set_map)
    then have "\<And>c. c \<in> set codes \<longleftrightarrow> Some c \<in> code ` set E" by auto
    then show ?thesis unfolding E' by force
  qed
  have n: "\<forall>e \<in> set ts. is_exclusion e \<longrightarrow> code e \<noteq> None"
  proof (intro ballI impI)
    fix e assume "e \<in> set ts" "is_exclusion e"
    then have "code e \<in> set (map code E)" by (simp add: E')
    then show "code e \<noteq> None" unfolding m by auto
  qed
  show ?thesis
  proof (rule that[of "set codes" ex u])
    show "set codes = {c. \<exists>e \<in> set ts. is_exclusion e \<and> code e = Some c}" by (rule S)
    show "\<forall>e \<in> set ts. is_exclusion e \<longrightarrow> code e \<noteq> None" by (rule n)
    show "link_penalties (filter is_exclusion ts) (set codes) (filter is_penalty ts) ([], [], {})
       = Inr (applicable_penalties out, ex, u)" using l by (simp add: o P' E')
    show "excluded_penalties out = ex" by (simp add: o)
    show "neutral_exclusions out =
       filter (\<lambda>e. case code e of None \<Rightarrow> True | Some k \<Rightarrow> k \<notin> u) (filter is_exclusion ts)"
      by (simp add: o E')
  qed
qed


lemma resolver_applicable:
  assumes "process_other_tariffs ts = Inr out"
  shows "x \<in> set (applicable_penalties out) \<longleftrightarrow>
           x \<in> set ts \<and> is_penalty x \<and> \<not> marked_excluded ts x"
proof -
  from assms obtain S ex u where
    S: "S = {c. \<exists>e \<in> set ts. is_exclusion e \<and> code e = Some c}"
    and l: "link_penalties (filter is_exclusion ts) S (filter is_penalty ts) ([], [], {})
       = Inr (applicable_penalties out, ex, u)"
    by (rule process_facts)
  have r: "meets_codes S (excludedByCodes p) \<longleftrightarrow> marked_excluded ts p" for p
    unfolding meets_codes_iff marked_excluded_iff S by auto
  from link_final_used[OF l] show ?thesis by (auto simp: r)
qed

lemma resolver_codes:
  assumes "process_other_tariffs ts = Inr out" and "x \<in> set ts" and "is_penalty x \<or> is_exclusion x"
  shows "code x \<noteq> None"
proof -
  from assms(1) obtain S ex u where
    n: "\<forall>e \<in> set ts. is_exclusion e \<longrightarrow> code e \<noteq> None"
    and l: "link_penalties (filter is_exclusion ts) S (filter is_penalty ts) ([], [], {})
       = Inr (applicable_penalties out, ex, u)"
    by (rule process_facts)
  from link_final_used[OF l] n assms(2,3) show ?thesis by auto
qed

lemma resolver_neutral:
  assumes "process_other_tariffs ts = Inr out"
  shows "x \<in> set (neutral_exclusions out) \<longleftrightarrow>
           x \<in> set ts \<and> is_exclusion x
           \<and> \<not> (\<exists>p \<in> set ts. is_penalty p \<and> code x \<in> set (excludedByCodes p))"
proof -
  from assms obtain S ex u where
    S: "S = {c. \<exists>e \<in> set ts. is_exclusion e \<and> code e = Some c}"
    and n: "\<forall>e \<in> set ts. is_exclusion e \<longrightarrow> code e \<noteq> None"
    and l: "link_penalties (filter is_exclusion ts) S (filter is_penalty ts) ([], [], {})
       = Inr (applicable_penalties out, ex, u)"
    and ne: "neutral_exclusions out =
       filter (\<lambda>e. case code e of None \<Rightarrow> True | Some k \<Rightarrow> k \<notin> u) (filter is_exclusion ts)"
    by (rule process_facts)
  have u: "u = {c \<in> S. \<exists>p \<in> set (filter is_penalty ts). Some c \<in> set (excludedByCodes p)}"
    using link_final_used[OF l] by simp
  show ?thesis
  proof (cases "x \<in> set ts \<and> is_exclusion x")
    case False
    then show ?thesis by (auto simp: ne)
  next
    case True
    then obtain k where k: "code x = Some k" using n by auto
    have "k \<in> S" unfolding S using True k by auto
    then have "k \<in> u \<longleftrightarrow> (\<exists>p \<in> set ts. is_penalty p \<and> Some k \<in> set (excludedByCodes p))"
      unfolding u by auto
    then show ?thesis using True k by (simp add: ne)
  qed
qed

lemma resolver_distinct:
  assumes "process_other_tariffs ts = Inr out"
  shows "distinct (map fst (excluded_penalties out))"
proof -
  from assms obtain S ex u where
    l: "link_penalties (filter is_exclusion ts) S (filter is_penalty ts) ([], [], {})
       = Inr (applicable_penalties out, ex, u)"
    and e: "excluded_penalties out = ex"
    by (rule process_facts)
  from link_distinct[OF l] e show ?thesis by simp
qed

lemma resolver_entry:
  assumes "process_other_tariffs ts = Inr out" and "(k, en) \<in> set (excluded_penalties out)"
  shows "penalty en \<in> set ts \<and> is_penalty (penalty en) \<and> marked_excluded ts (penalty en)
         \<and> code (penalty en) = Some k
         \<and> set (exclusions en) =
             {e \<in> set ts. is_exclusion e \<and> code e \<in> set (excludedByCodes (penalty en))}"
proof -
  from assms(1) obtain S ex u where
    S: "S = {c. \<exists>e \<in> set ts. is_exclusion e \<and> code e = Some c}"
    and n: "\<forall>e \<in> set ts. is_exclusion e \<longrightarrow> code e \<noteq> None"
    and l: "link_penalties (filter is_exclusion ts) S (filter is_penalty ts) ([], [], {})
       = Inr (applicable_penalties out, ex, u)"
    and e: "excluded_penalties out = ex"
    by (rule process_facts)
  have r: "meets_codes S (excludedByCodes p) \<longleftrightarrow> marked_excluded ts p" for p
    unfolding meets_codes_iff marked_excluded_iff S by auto
  have "map_of ex k = Some en"
    using assms(2) e link_distinct[OF l] by simp
  from link_entries[OF l this] obtain p where
    p: "p \<in> set ts" "is_penalty p" "meets_codes S (excludedByCodes p)" "code p = Some k"
       "en = entry_of (filter is_exclusion ts) S p" by auto
  have "set (exclusions en) = {e \<in> set ts. is_exclusion e \<and> code e \<in> set (excludedByCodes p)}"
  proof -
    have "x \<in> set (matching_group (filter is_exclusion ts) S (excludedByCodes p)) \<longleftrightarrow>
            x \<in> set ts \<and> is_exclusion x \<and> code x \<in> set (excludedByCodes p)" for x
    proof (cases "x \<in> set ts \<and> is_exclusion x")
      case False
      then show ?thesis by (auto simp: matching_group_iff)
    next
      case True
      then obtain c where c: "code x = Some c" using n by auto
      then have "c \<in> S" unfolding S using True by auto
      then show ?thesis using True c by (auto simp: matching_group_iff)
    qed
    then show ?thesis unfolding p(5) entry_of_def by auto
  qed
  then show ?thesis using p r by (simp add: entry_of_def)
qed

lemma resolver_last_wins:
  assumes "process_other_tariffs ts = Inr out" and "ts = xs @ q # zs"
    and "is_penalty q" and "marked_excluded ts q"
    and "\<forall>z \<in> set zs. is_penalty z \<and> marked_excluded ts z \<longrightarrow> code z \<noteq> code q"
  shows "\<exists>k en. code q = Some k \<and> (k, en) \<in> set (excluded_penalties out) \<and> penalty en = q"
proof -
  from assms(1) obtain S ex u where
    S: "S = {c. \<exists>e \<in> set ts. is_exclusion e \<and> code e = Some c}"
    and l: "link_penalties (filter is_exclusion ts) S (filter is_penalty ts) ([], [], {})
       = Inr (applicable_penalties out, ex, u)"
    and e: "excluded_penalties out = ex"
    by (rule process_facts)
  have r: "meets_codes S (excludedByCodes p) \<longleftrightarrow> marked_excluded ts p" for p
    unfolding meets_codes_iff marked_excluded_iff S by auto
  obtain k where k: "code q = Some k"
    using resolver_codes[OF assms(1), of q] assms(2,3) by auto
  have f: "filter is_penalty ts = filter is_penalty xs @ q # filter is_penalty zs"
    using assms(2,3) by simp
  have "map_of ex k = Some (entry_of (filter is_exclusion ts) S q)"
  proof (rule link_last_wins[OF l[unfolded f]])
    show "meets_codes S (excludedByCodes q)" using assms(4) r by simp
    show "code q = Some k" by (rule k)
    show "\<forall>z \<in> set (filter is_penalty zs). meets_codes S (excludedByCodes z) \<longrightarrow> code z \<noteq> Some k"
      using assms(5) k r by auto
  qed
  then have "(k, entry_of (filter is_exclusion ts) S q) \<in> set ex" by (rule map_of_SomeD)
  then show ?thesis using k e by (auto simp: entry_of_def)
qed

lemma bucket_iff:
  "x \<in> excluded_bucket out \<longleftrightarrow>
     (\<exists>k en. (k, en) \<in> set (excluded_penalties out) \<and> (x = penalty en \<or> x \<in> set (exclusions en)))"
  unfolding excluded_bucket_def by force

lemma resolver_entry_exists:
  assumes ok: "process_other_tariffs ts = Inr out"
    and p: "p \<in> set ts" "is_penalty p" "marked_excluded ts p"
  shows "\<exists>q k en. q \<in> set ts \<and> is_penalty q \<and> marked_excluded ts q \<and> code q = code p
           \<and> code q = Some k \<and> (k, en) \<in> set (excluded_penalties out) \<and> penalty en = q"
proof -
  let ?P = "\<lambda>z. is_penalty z \<and> marked_excluded ts z \<and> code z = code p"
  have "\<exists>z \<in> set ts. ?P z" using p by auto
  from split_list_last_prop[OF this] obtain xs q zs where
    ts: "ts = xs @ q # zs" and q: "?P q" and zs: "\<forall>z \<in> set zs. \<not> ?P z" by blast
  have "\<exists>k en. code q = Some k \<and> (k, en) \<in> set (excluded_penalties out) \<and> penalty en = q"
    using resolver_last_wins[OF ok ts] q zs by auto
  then obtain k en where "code q = Some k" "(k, en) \<in> set (excluded_penalties out)" "penalty en = q"
    by blast
  moreover have "q \<in> set ts" unfolding ts by simp
  ultimately show ?thesis using q by blast
qed

lemmas sample_defs =
  pen_first_def pen_second_def excl_a_def excl_b_def negative_rate_def pen_plain_def
  excl_other_def blank_tariff_def

lemmas resolver_defs =
  process_other_tariffs_def float_penalty_rate_def is_penalty_def is_exclusion_def
  marked_excluded_def excluded_bucket_def

lemma eval_group:
  "process_other_tariffs [pen_first, excl_a, excl_b] = Inr sample_group_output"
  by (simp add: resolver_defs sample_group_output_def sample_defs)

lemma eval_overwrite:
  "process_other_tariffs [pen_first, pen_second, excl_a, negative_rate] = Inr sample_overwrite_output"
  by (simp add: resolver_defs sample_overwrite_output_def sample_defs)

lemma eval_mixed:
  "process_other_tariffs [pen_first, excl_a, pen_plain, excl_other] = Inr sample_mixed_output"
  by (simp add: resolver_defs sample_mixed_output_def sample_defs)

text \<open>
  Claim C6. Let the resolver return on a list in which a penalty lists, among its
  \<open>excludedByCodes\<close>, the code of an exclusion of the list. Then no exclusion with that
  code is neutral (the code is used), the penalty is not active, its code is a key of
  \<open>excluded_penalties\<close>, and every entry that holds the penalty has every exclusion with
  that code in its group.
\<close>

theorem exclusion_groups_complete:
  assumes "process_other_tariffs ts = Inr out"
    and "p \<in> set ts" and "is_penalty p" and "Some c \<in> set (excludedByCodes p)"
    and "e \<in> set ts" and "is_exclusion e" and "code e = Some c"
  shows "e \<notin> set (neutral_exclusions out)
       \<and> p \<notin> set (applicable_penalties out)
       \<and> (\<exists>k. code p = Some k \<and> k \<in> fst ` set (excluded_penalties out))
       \<and> (\<forall>kv \<in> set (excluded_penalties out). penalty (snd kv) = p \<longrightarrow> e \<in> set (exclusions (snd kv)))"
proof -
  have m: "marked_excluded ts p" unfolding marked_excluded_iff using assms(4-7) by blast
  have 1: "e \<notin> set (neutral_exclusions out)"
    unfolding resolver_neutral[OF assms(1)] using assms(2-4,7) by auto
  have 2: "p \<notin> set (applicable_penalties out)"
    unfolding resolver_applicable[OF assms(1)] using m by simp
  have 3: "\<exists>k. code p = Some k \<and> k \<in> fst ` set (excluded_penalties out)"
    using resolver_entry_exists[OF assms(1-3) m] by force
  have 4: "\<forall>kv \<in> set (excluded_penalties out). penalty (snd kv) = p \<longrightarrow> e \<in> set (exclusions (snd kv))"
  proof (intro ballI impI)
    fix kv assume kv: "kv \<in> set (excluded_penalties out)" "penalty (snd kv) = p"
    then have "(fst kv, snd kv) \<in> set (excluded_penalties out)" by simp
    from resolver_entry[OF assms(1) this] kv(2) assms(4-7)
    show "e \<in> set (exclusions (snd kv))" by auto
  qed
  from 1 2 3 4 show ?thesis by blast
qed

theorem exclusion_groups_complete_witness:
  "excl_b \<notin> set (neutral_exclusions sample_group_output)
   \<and> pen_first \<notin> set (applicable_penalties sample_group_output)
   \<and> (\<exists>k. code pen_first = Some k \<and> k \<in> fst ` set (excluded_penalties sample_group_output))
   \<and> excl_b \<in> set (exclusions (snd (hd (excluded_penalties sample_group_output))))"
proof -
  have t: "excl_b \<notin> set (neutral_exclusions sample_group_output)
       \<and> pen_first \<notin> set (applicable_penalties sample_group_output)
       \<and> (\<exists>k. code pen_first = Some k \<and> k \<in> fst ` set (excluded_penalties sample_group_output))
       \<and> (\<forall>kv \<in> set (excluded_penalties sample_group_output).
             penalty (snd kv) = pen_first \<longrightarrow> excl_b \<in> set (exclusions (snd kv)))"
    by (rule exclusion_groups_complete[OF eval_group, where c = "''9903.88.69''"])
       (simp_all add: resolver_defs sample_defs)
  have h: "hd (excluded_penalties sample_group_output) \<in> set (excluded_penalties sample_group_output)"
    "penalty (snd (hd (excluded_penalties sample_group_output))) = pen_first"
    by (simp_all add: sample_group_output_def)
  from t h show ?thesis by blast
qed

text \<open>
  Claim C10. \<open>excluded_penalties\<close> is keyed by the penalty code. Let the resolver return
  on a list where two different penalties with the same code are both marked excluded,
  the second one being the last such penalty of the list. Then the key holds one entry,
  that of the second penalty, and the first penalty is in none of the three buckets.
\<close>

theorem later_penalty_overwrites:
  assumes "process_other_tariffs ts = Inr out" and "ts = xs @ q # zs" and "p \<in> set xs"
    and "is_penalty p" and "marked_excluded ts p" and "is_penalty q" and "marked_excluded ts q"
    and "code p = Some k" and "code q = Some k" and "p \<noteq> q"
    and "\<forall>z \<in> set zs. is_penalty z \<and> marked_excluded ts z \<longrightarrow> code z \<noteq> Some k"
  shows "(\<exists>en. (k, en) \<in> set (excluded_penalties out) \<and> penalty en = q)
       \<and> (\<forall>kv \<in> set (excluded_penalties out). fst kv = k \<longrightarrow> penalty (snd kv) = q)
       \<and> p \<notin> set (applicable_penalties out)
       \<and> p \<notin> excluded_bucket out
       \<and> p \<notin> set (neutral_exclusions out)"
proof -
  note ok = assms(1)
  have d: "distinct (map fst (excluded_penalties out))" by (rule resolver_distinct[OF ok])
  obtain en where en: "(k, en) \<in> set (excluded_penalties out)" "penalty en = q"
    using resolver_last_wins[OF ok assms(2) assms(6,7)] assms(9,11) by auto
  have only: "penalty en' = q" if "(k, en') \<in> set (excluded_penalties out)" for en'
  proof -
    have "en' = en" using d that en(1) by (meson eq_key_imp_eq_value)
    then show ?thesis using en(2) by simp
  qed
  have 2: "\<forall>kv \<in> set (excluded_penalties out). fst kv = k \<longrightarrow> penalty (snd kv) = q"
    using only by (metis prod.collapse)
  have 3: "p \<notin> set (applicable_penalties out)"
    unfolding resolver_applicable[OF ok] using assms(5) by simp
  have 5: "p \<notin> set (neutral_exclusions out)"
    unfolding resolver_neutral[OF ok] using assms(4) penalty_not_exclusion by blast
  have 4: "p \<notin> excluded_bucket out"
  proof
    assume "p \<in> excluded_bucket out"
    then obtain k' en' where e': "(k', en') \<in> set (excluded_penalties out)"
      and x: "p = penalty en' \<or> p \<in> set (exclusions en')" unfolding bucket_iff by blast
    note r = resolver_entry[OF ok e']
    from x show False
    proof
      assume px: "p = penalty en'"
      then have "k' = k" using r assms(8) by simp
      then have "penalty en' = q" using only e' by simp
      then show False using px assms(10) by simp
    next
      assume "p \<in> set (exclusions en')"
      then have "is_exclusion p" using r by auto
      then show False using assms(4) penalty_not_exclusion by blast
    qed
  qed
  from en 2 3 4 5 show ?thesis by blast
qed

theorem later_penalty_overwrites_witness:
  "(\<exists>en. (''9903.88.01'', en) \<in> set (excluded_penalties sample_overwrite_output)
          \<and> penalty en = pen_second)
   \<and> penalty (snd (hd (excluded_penalties sample_overwrite_output))) = pen_second
   \<and> pen_first \<notin> set (applicable_penalties sample_overwrite_output)
   \<and> pen_first \<notin> excluded_bucket sample_overwrite_output
   \<and> pen_first \<notin> set (neutral_exclusions sample_overwrite_output)"
proof -
  have t: "(\<exists>en. (''9903.88.01'', en) \<in> set (excluded_penalties sample_overwrite_output)
          \<and> penalty en = pen_second)
   \<and> (\<forall>kv \<in> set (excluded_penalties sample_overwrite_output).
         fst kv = ''9903.88.01'' \<longrightarrow> penalty (snd kv) = pen_second)
   \<and> pen_first \<notin> set (applicable_penalties sample_overwrite_output)
   \<and> pen_first \<notin> excluded_bucket sample_overwrite_output
   \<and> pen_first \<notin> set (neutral_exclusions sample_overwrite_output)"
    by (rule later_penalty_overwrites[OF eval_overwrite,
          where xs = "[pen_first]" and zs = "[excl_a, negative_rate]"])
       (simp_all add: resolver_defs sample_defs)
  have h: "hd (excluded_penalties sample_overwrite_output) \<in> set (excluded_penalties sample_overwrite_output)"
    "fst (hd (excluded_penalties sample_overwrite_output)) = ''9903.88.01''"
    by (simp_all add: sample_overwrite_output_def)
  from t h show ?thesis by blast
qed

text \<open>
  Claim C2, as stated, fails: on the list of the two penalties with the same code, the
  exclusion that excludes both and the record with a negative penalty rate, the first
  penalty and the record with the negative rate are in none of the three buckets.
\<close>

theorem buckets_partition_counterexample:
  "process_other_tariffs [pen_first, pen_second, excl_a, negative_rate] = Inr sample_overwrite_output
   \<and> pen_first \<in> set [pen_first, pen_second, excl_a, negative_rate]
   \<and> pen_first \<notin> set (applicable_penalties sample_overwrite_output)
        \<union> excluded_bucket sample_overwrite_output
        \<union> set (neutral_exclusions sample_overwrite_output)
   \<and> negative_rate \<in> set [pen_first, pen_second, excl_a, negative_rate]
   \<and> negative_rate \<notin> set (applicable_penalties sample_overwrite_output)
        \<union> excluded_bucket sample_overwrite_output
        \<union> set (neutral_exclusions sample_overwrite_output)"
  by (simp add: eval_overwrite)
     (simp add: sample_overwrite_output_def excluded_bucket_def sample_defs)

text \<open>
  Claim C2, amended. Whenever the resolver returns, the three buckets are pairwise
  disjoint and hold only records of the input. When moreover every record of the input
  is a penalty or an exclusion (its penalty rate is positive, zero or absent) and no two
  different penalties that are marked excluded have the same code, the three buckets
  together hold exactly the records of the input.
\<close>

theorem buckets_disjoint_and_cover:
  assumes "process_other_tariffs ts = Inr out"
  shows "set (applicable_penalties out) \<inter> excluded_bucket out = {}
       \<and> set (applicable_penalties out) \<inter> set (neutral_exclusions out) = {}
       \<and> excluded_bucket out \<inter> set (neutral_exclusions out) = {}
       \<and> set (applicable_penalties out) \<union> excluded_bucket out \<union> set (neutral_exclusions out) \<subseteq> set ts
       \<and> ((\<forall>c \<in> set ts. is_penalty c \<or> is_exclusion c)
            \<and> (\<forall>p \<in> set ts. \<forall>q \<in> set ts.
                  is_penalty p \<and> is_penalty q \<and> marked_excluded ts p \<and> marked_excluded ts q
                  \<and> code p = code q \<longrightarrow> p = q)
          \<longrightarrow> set (applicable_penalties out) \<union> excluded_bucket out \<union> set (neutral_exclusions out)
                = set ts)"
proof -
  note ok = assms
  note A = resolver_applicable[OF ok] and N = resolver_neutral[OF ok]
  have B: "x \<in> set ts \<and> ((is_penalty x \<and> marked_excluded ts x)
             \<or> (is_exclusion x \<and> (\<exists>p \<in> set ts. is_penalty p \<and> code x \<in> set (excludedByCodes p))))"
    if "x \<in> excluded_bucket out" for x
  proof -
    from that obtain k en where e: "(k, en) \<in> set (excluded_penalties out)"
      and x: "x = penalty en \<or> x \<in> set (exclusions en)" unfolding bucket_iff by blast
    note r = resolver_entry[OF ok e]
    from x r show ?thesis by auto
  qed
  have 1: "set (applicable_penalties out) \<inter> excluded_bucket out = {}"
    using A B penalty_not_exclusion by blast
  have 2: "set (applicable_penalties out) \<inter> set (neutral_exclusions out) = {}"
    using A N penalty_not_exclusion by blast
  have 3: "excluded_bucket out \<inter> set (neutral_exclusions out) = {}"
    using B N penalty_not_exclusion by blast
  have 4: "set (applicable_penalties out) \<union> excluded_bucket out \<union> set (neutral_exclusions out) \<subseteq> set ts"
    using A B N by blast
  have 5: "set (applicable_penalties out) \<union> excluded_bucket out \<union> set (neutral_exclusions out) = set ts"
    if all: "\<forall>c \<in> set ts. is_penalty c \<or> is_exclusion c"
      and uniq: "\<forall>p \<in> set ts. \<forall>q \<in> set ts.
                  is_penalty p \<and> is_penalty q \<and> marked_excluded ts p \<and> marked_excluded ts q
                  \<and> code p = code q \<longrightarrow> p = q"
  proof -
    have entry: "\<exists>k en. (k, en) \<in> set (excluded_penalties out) \<and> penalty en = p"
      if p: "p \<in> set ts" "is_penalty p" "marked_excluded ts p" for p
    proof -
      from resolver_entry_exists[OF ok p] obtain q k en where
        q: "q \<in> set ts" "is_penalty q" "marked_excluded ts q" "code q = code p"
           "(k, en) \<in> set (excluded_penalties out)" "penalty en = q" by blast
      then have "q = p" using uniq p by blast
      then show ?thesis using q by blast
    qed
    have "x \<in> set (applicable_penalties out) \<union> excluded_bucket out \<union> set (neutral_exclusions out)"
      if x: "x \<in> set ts" for x
    proof (cases "is_penalty x")
      case True
      show ?thesis
      proof (cases "marked_excluded ts x")
        case True
        from entry[OF x \<open>is_penalty x\<close> True] have "x \<in> excluded_bucket out"
          unfolding bucket_iff by blast
        then show ?thesis by simp
      next
        case False
        then show ?thesis using A x True by simp
      qed
    next
      case False
      then have ex: "is_exclusion x" using all x by blast
      show ?thesis
      proof (cases "\<exists>p \<in> set ts. is_penalty p \<and> code x \<in> set (excludedByCodes p)")
        case True
        then obtain p where p: "p \<in> set ts" "is_penalty p" "code x \<in> set (excludedByCodes p)" by blast
        obtain c where c: "code x = Some c" using resolver_codes[OF ok x] ex by auto
        have "marked_excluded ts p" unfolding marked_excluded_iff using p(3) c x ex by auto
        from entry[OF p(1,2) this] obtain k en where
          e: "(k, en) \<in> set (excluded_penalties out)" "penalty en = p" by blast
        have "x \<in> set (exclusions en)" using resolver_entry[OF ok e(1)] e(2) p(3) x ex by auto
        then have "x \<in> excluded_bucket out" unfolding bucket_iff using e(1) by blast
        then show ?thesis by simp
      next
        case False
        then show ?thesis using N x ex by simp
      qed
    qed
    then show ?thesis using 4 by blast
  qed
  from 1 2 3 4 5 show ?thesis by blast
qed

theorem buckets_disjoint_and_cover_witness:
  "set (applicable_penalties sample_mixed_output) \<union> excluded_bucket sample_mixed_output
     \<union> set (neutral_exclusions sample_mixed_output)
   = set [pen_first, excl_a, pen_plain, excl_other]"
proof -
  have all: "\<forall>c \<in> set [pen_first, excl_a, pen_plain, excl_other]. is_penalty c \<or> is_exclusion c"
    by (simp add: resolver_defs sample_defs)
  have uniq: "\<forall>p \<in> set [pen_first, excl_a, pen_plain, excl_other].
              \<forall>q \<in> set [pen_first, excl_a, pen_plain, excl_other].
                is_penalty p \<and> is_penalty q
                \<and> marked_excluded [pen_first, excl_a, pen_plain, excl_other] p
                \<and> marked_excluded [pen_first, excl_a, pen_plain, excl_other] q
                \<and> code p = code q \<longrightarrow> p = q"
    by (simp add: resolver_defs sample_defs)
  from buckets_disjoint_and_cover[OF eval_mixed] all uniq show ?thesis by blast
qed

section \<open>Properties of the aggregation\<close>

text \<open>Floor and ceiling of a quotient of numerals, for evaluation.\<close>

lemma floor_rat_numeral [simp]: "\<lfloor>(numeral a :: rat) / numeral b\<rfloor> = numeral a div numeral b"
  by (metis floor_divide_of_int_eq of_int_numeral)

lemma ceiling_rat_numeral [simp]:
  "\<lceil>(numeral a :: rat) / numeral b\<rceil> = - (- numeral a div numeral b)"
  by (metis ceiling_def floor_divide_of_int_eq minus_divide_left of_int_minus of_int_numeral)

lemma token_floats_append: "token_floats (xs @ ys) = token_floats xs @ token_floats ys"
  by (simp add: token_floats_def map_filter_def)

lemma token_floats_Cons:
  "token_floats (v # vs) =
     (case py_float (strip_percent v) of None \<Rightarrow> token_floats vs | Some x \<Rightarrow> x # token_floats vs)"
  by (simp add: token_floats_def map_filter_def split: option.splits)

lemma add_rate_values_foldl: "add_rate_values vs acc = foldl fadd acc (token_floats vs)"
  unfolding add_rate_values_def
  by (induction vs arbitrary: acc) (auto simp: token_floats_Cons token_floats_def map_filter_def split: option.splits)

lemma fold_add_rate_values_foldl:
  "fold (\<lambda>p a. add_rate_values (rate_values p) a) ps acc
     = foldl fadd acc (token_floats (concat (map rate_values ps)))"
  by (induction ps arbitrary: acc) (simp_all add: add_rate_values_foldl token_floats_append token_floats_def map_filter_def)

lemma not_digit_dot [simp]: "\<not> is_digit CHR ''.''" and not_digit_pct [simp]: "\<not> is_digit CHR ''%''"
  by (simp_all add: is_digit_def)

lemma dropWhile_no_digit: "takeWhile is_digit (dropWhile is_digit s) = []"
  by (metis dropWhile_eq_Nil_conv hd_dropWhile takeWhile.simps(1) takeWhile_eq_Nil_iff list.collapse takeWhile.simps(2))

lemma strip_percent_append: "strip_percent (xs @ ys) = strip_percent xs @ strip_percent ys"
  by (simp add: strip_percent_def)

lemma py_float_digits:
  assumes "ip \<noteq> []" "\<forall>x \<in> set ip. is_digit x"
  shows "py_float ip \<noteq> None"
proof -
  have tw: "takeWhile is_digit ip = ip" "dropWhile is_digit ip = []"
    using assms(2) by (simp_all add: takeWhile_eq_all_conv)
  show ?thesis using assms(1) by (simp add: py_float_def tw)
qed

lemma py_float_digits_dot:
  assumes "ip \<noteq> []" "\<forall>x \<in> set ip. is_digit x" "\<forall>x \<in> set fp. is_digit x"
  shows "py_float (ip @ CHR ''.'' # fp) \<noteq> None"
proof -
  have tw: "takeWhile is_digit (ip @ CHR ''.'' # fp) = ip"
       "dropWhile is_digit (ip @ CHR ''.'' # fp) = CHR ''.'' # fp"
    using assms(2) by (simp_all add: takeWhile_append2 dropWhile_append2)
  show ?thesis using assms(1,3) by (simp add: py_float_def tw list_all_iff)
qed

lemma strip_percent_digits: "\<forall>x \<in> set xs. is_digit x \<Longrightarrow> strip_percent xs = xs"
  unfolding strip_percent_def by (induction xs) auto

lemma match_number_shape:
  "\<exists>dot fp pct. fst (match_number s) = takeWhile is_digit s @ dot @ fp @ pct
      \<and> (dot = [] \<and> fp = [] \<or> dot = ''.'') \<and> (\<forall>x \<in> set fp. is_digit x)
      \<and> (pct = [] \<or> pct = ''%'')"
proof -
  define r1 where "r1 = dropWhile is_digit s"
  define dot where "dot = (if r1 \<noteq> [] \<and> hd r1 = CHR ''.'' then ''.'' else [])"
  define r2 where "r2 = drop (length dot) r1"
  define fp where "fp = takeWhile is_digit r2"
  define r3 where "r3 = dropWhile is_digit r2"
  define pct where "pct = (if r3 \<noteq> [] \<and> hd r3 = CHR ''%'' then ''%'' else [])"
  have eq: "fst (match_number s) = takeWhile is_digit s @ dot @ fp @ pct"
    unfolding match_number_def Let_def fst_conv pct_def r3_def fp_def r2_def dot_def r1_def ..
  have fpd: "\<forall>x \<in> set fp. is_digit x" by (auto simp: fp_def dest: set_takeWhileD)
  have "dot = [] \<Longrightarrow> fp = []"
  proof -
    assume d: "dot = []"
    then have "r2 = r1" by (simp add: r2_def)
    then show "fp = []" unfolding fp_def r1_def by (simp add: dropWhile_no_digit)
  qed
  moreover have "dot = [] \<or> dot = ''.''" by (simp add: dot_def)
  moreover have "pct = [] \<or> pct = ''%''" by (simp add: pct_def)
  ultimately show ?thesis using eq fpd by blast
qed

lemma token_parses:
  assumes "is_digit c"
  shows "py_float (strip_percent (fst (match_number (c # cs)))) \<noteq> None"
proof -
  define ip where "ip = takeWhile is_digit (c # cs)"
  have ip: "ip \<noteq> []" "\<forall>x \<in> set ip. is_digit x"
    using assms by (auto simp: ip_def dest: set_takeWhileD)
  obtain dot fp pct where tok: "fst (match_number (c # cs)) = ip @ dot @ fp @ pct"
    and dot: "dot = [] \<and> fp = [] \<or> dot = ''.''" and fp: "\<forall>x \<in> set fp. is_digit x"
    and pct: "pct = [] \<or> pct = ''%''"
    using match_number_shape[of "c # cs"] unfolding ip_def by blast
  have sp: "strip_percent pct = []" using pct by (auto simp: strip_percent_def)
  have "strip_percent (fst (match_number (c # cs))) = ip @ strip_percent dot @ fp"
    unfolding tok strip_percent_append sp strip_percent_digits[OF ip(2)] strip_percent_digits[OF fp]
    by simp
  moreover have "py_float (ip @ strip_percent dot @ fp) \<noteq> None"
    using dot
  proof
    assume "dot = [] \<and> fp = []"
    then show ?thesis using py_float_digits[OF ip] by (simp add: strip_percent_def)
  next
    assume "dot = ''.''"
    then show ?thesis using py_float_digits_dot[OF ip fp] by (simp add: strip_percent_def)
  qed
  ultimately show ?thesis by simp
qed

lemma findall_numbers_head:
  "findall_numbers s = v # vs \<Longrightarrow> \<exists>c cs. is_digit c \<and> v = fst (match_number (c # cs))"
  by (induction s rule: findall_numbers.induct) (auto split: if_splits)

lemma basic_rate_value_total: "\<exists>x. basic_rate_value (Some s) = Inr x"
proof (cases "findall_numbers s")
  case Nil
  then show ?thesis by (simp add: basic_rate_value_def extract_values_def)
next
  case (Cons v vs)
  then obtain c cs where "is_digit c" "v = fst (match_number (c # cs))"
    using findall_numbers_head by blast
  then have "py_float (strip_percent v) \<noteq> None" using token_parses by simp
  then show ?thesis using Cons by (auto simp: basic_rate_value_def extract_values_def)
qed

lemma rated_Inr:
  "rated l c r = Inr y \<Longrightarrow> rate_values y = rate_tokens r \<and> r \<noteq> None"
  by (auto simp: rated_def extract_values_def rate_tokens_def split: option.splits)

lemma rated_Inl: "rated l c r = Inl e \<Longrightarrow> e = TypeError"
  by (auto simp: rated_def extract_values_def split: option.splits)

lemma collect_Inr:
  "collect f xs = Inr ys \<Longrightarrow> list_all2 (\<lambda>x y. f x = Inr y) xs ys"
  by (induction xs arbitrary: ys) (auto split: sum.splits)

lemma collect_Inl:
  "collect f xs = Inl e \<Longrightarrow> \<exists>x \<in> set xs. f x = Inl e"
  by (induction xs) (auto split: sum.splits)

lemma collect_rated:
  assumes "collect (\<lambda>p. rated (l p) (c p) (r p)) xs = Inr ys"
  shows "map rate_values ys = map (\<lambda>p. rate_tokens (r p)) xs"
  using collect_Inr[OF assms]
  by (induction xs ys rule: list_all2_induct) (auto dest: rated_Inr)

lemma excluded_step_Inr:
  "excluded_step p = Inr s \<Longrightarrow>
     rate_values (fst s) = rate_tokens (penalty_rate p)
     \<and> (entry_neutral_exclusions p = None \<longrightarrow> snd (snd s) = [])"
  by (auto simp: excluded_step_def split: sum.splits dest: rated_Inr)

lemma excluded_step_Inl: "excluded_step p = Inl e \<Longrightarrow> e = TypeError"
  by (auto simp: excluded_step_def split: sum.splits dest: rated_Inl collect_Inl)

lemma collect_excluded:
  assumes "collect excluded_step xs = Inr steps"
  shows "map (\<lambda>s. rate_values (fst s)) steps = map (\<lambda>p. rate_tokens (penalty_rate p)) xs"
    and "\<forall>p \<in> set xs. entry_neutral_exclusions p = None \<Longrightarrow>
         concat (map (\<lambda>s. snd (snd s)) steps) = []"
  using collect_Inr[OF assms]
  by (induction xs steps rule: list_all2_induct) (auto dest: excluded_step_Inr)

lemma get_data_Inl: "get_data rep = Inl e \<Longrightarrow> e = TypeError"
  by (auto simp: get_data_def Let_def split: sum.splits dest!: collect_Inl dest: rated_Inl excluded_step_Inl)

lemma get_data_rates:
  assumes "get_data rep = Inr td"
  shows "map rate_values (td_penalties td)
           = map (\<lambda>x. rate_tokens (item_rate x)) (ot_active_penalties (other_tariffs rep))"
    and "map rate_values (td_excluded_penalties td)
           = map (\<lambda>x. rate_tokens (penalty_rate x)) (ot_excluded_penalties (other_tariffs rep))"
    and "\<forall>p \<in> set (ot_excluded_penalties (other_tariffs rep)). entry_neutral_exclusions p = None
         \<Longrightarrow> td_neutral_exclusions td = []"
proof -
  from assms obtain ps steps where
    p: "collect (\<lambda>p. rated (item_label p) (item_code p) (item_rate p))
          (ot_active_penalties (other_tariffs rep)) = Inr ps"
    and s: "collect excluded_step (ot_excluded_penalties (other_tariffs rep)) = Inr steps"
    and td: "td_penalties td = ps" "td_excluded_penalties td = map fst steps"
            "td_neutral_exclusions td = concat (map (\<lambda>s. snd (snd s)) steps)"
    by (auto simp: get_data_def Let_def split: sum.splits)
  show "map rate_values (td_penalties td)
           = map (\<lambda>x. rate_tokens (item_rate x)) (ot_active_penalties (other_tariffs rep))"
    unfolding td using collect_rated[OF p] .
  show "map rate_values (td_excluded_penalties td)
           = map (\<lambda>x. rate_tokens (penalty_rate x)) (ot_excluded_penalties (other_tariffs rep))"
    unfolding td using collect_excluded(1)[OF s] by (simp add: comp_def)
  show "\<forall>p \<in> set (ot_excluded_penalties (other_tariffs rep)). entry_neutral_exclusions p = None
         \<Longrightarrow> td_neutral_exclusions td = []"
    unfolding td using collect_excluded(2)[OF s] by simp
qed

lemma built_entries_have_no_neutral_key:
  "\<forall>p \<in> set (ot_excluded_penalties (other_tariffs (generate_report_data a co))).
     entry_neutral_exclusions p = None"
  by (auto simp: generate_report_data_def build_other_tariffs_def build_excluded_item_def
           split: prod.splits)

lemma fadd_zero_left: "fadd (Finite 0) x = x"
  by (cases x) simp_all

lemmas float_defs = round_double_def floor_log2_def pow2_def round_half_even_def inf_of_sign_def

lemmas eval_defs =
  calculate_tariff_route_def analyze_tariffs_def process_other_tariffs_def float_penalty_rate_def
  generate_report_data_def build_primary_info_def build_special_programs_def
  build_other_tariffs_def build_penalty_item_def build_exclusion_item_def build_excluded_item_def
  build_program_def or_na_def rate_or_na_def get_data_def rated_def excluded_step_def
  extract_values_def calculate_total_tariff_def basic_rate_value_def
  total_rate_acc_def active_total_rate_def excluded_total_rate_def add_rate_values_def
  match_number_def is_digit_def py_float_def digits_value_def strip_percent_def py_lower_def
  py_upper_def is_code_applicable_def applicable_body_def
  neutral_values_def response_total_def response_report_def float_defs

lemma eval_sample_report: "get_data sample_report = Inr sample_tariff_data"
  by (simp add: sample_report_def sample_tariff_data_def get_data_def rated_def extract_values_def
        match_number_def is_digit_def)

text \<open>
  Claim C3, as stated, fails: the amounts are binary floats. For a primary rate of
  \<open>7%\<close> and a base cost of 100 the duty rate is 7, and the duties are 100 times the
  rounded quotient 7 / 100, which is 7.000000000000001 (the float next above 7) and
  not 100 * 7 / 100, which is 7 in exact arithmetic and also in floats when the product
  is taken first.
\<close>

theorem duty_amount_rounding_counterexample:
  "response_total (snd (calculate_tariff_route
      (Some [blank_tariff\<lparr>rec_type := Some ''COMMODITY_CODE'', rateDescription := Text ''7%''\<rparr>])
      (blank_request\<lparr>req_base_cost := Finite 100\<rparr>)))
     = Some \<lparr>duty_rate = ''7.00%'',
             total_duties = Finite (7881299347898369 / 1125899906842624),
             total_cost = Finite 107\<rparr>
   \<and> Finite (7881299347898369 / 1125899906842624) \<noteq> Finite (100 * 7 / 100)
   \<and> fdiv_by (fmul (Finite 100) (Finite 7)) 100 = Finite (100 * 7 / 100)"
  by (simp add: eval_defs blank_tariff_def blank_request_def)

text \<open>
  Claim C3, amended. For a report on which \<open>get_data\<close> returns (its rates are strings)
  with a basic rate that is a string, \<open>calculate_total_tariff\<close> returns, and in binary64
  arithmetic, each operation rounded: the duty rate is the basic accumulator plus the
  active total plus the excluded total, added in this order and printed from the float
  with two decimals and a percent sign; the duties are the base cost times the quotient
  of the duty rate by 100; the total cost is the duties plus the base cost (the route
  passes the base cost of the request). The accumulator and the two totals are sums
  from the left: the basic rate and then the neutral values; the tokens of the rates of
  the active penalties of the report; the tokens of the excluded penalties' own rates.
  A snapshot that is only a primary record with rate \<open>5%\<close> and no special rates,
  requested with base cost 1000, is answered with duty rate \<open>5.00%\<close>, duties 50 and
  total cost 1050, exactly.
\<close>

theorem duty_formula_in_floats:
  assumes "get_data rep = Inr td" and "td_basic_rate td = Some s"
  shows "(\<exists>basic. basic_rate_value (td_basic_rate td) = Inr basic
           \<and> calculate_total_tariff base_cost td base_cost =
               Inr \<lparr>duty_rate = format_2f (spec_duty_rate td basic) @ ''%'',
                    total_duties = fmul base_cost (fdiv_by (spec_duty_rate td basic) 100),
                    total_cost = fadd (fmul base_cost (fdiv_by (spec_duty_rate td basic) 100))
                                   base_cost\<rparr>)
       \<and> spec_active_total td =
           foldl fadd (Finite 0)
             (token_floats (concat (map (\<lambda>x. rate_tokens (item_rate x))
                                      (ot_active_penalties (other_tariffs rep)))))
       \<and> spec_excluded_total td =
           foldl fadd (Finite 0)
             (token_floats (concat (map (\<lambda>x. rate_tokens (penalty_rate x))
                                      (ot_excluded_penalties (other_tariffs rep)))))
       \<and> response_total (snd (calculate_tariff_route
            (Some [p\<lparr>rec_type := Some ''COMMODITY_CODE'', rateDescription := Text ''5%'',
                     specialRates := []\<rparr>])
            (req\<lparr>req_country := [co], req_mode_of_transport := [''ANY''],
                 req_base_cost := Finite 1000\<rparr>)))
         = Some \<lparr>duty_rate = ''5.00%'', total_duties = Finite 50, total_cost = Finite 1050\<rparr>"
proof -
  have formula: "\<exists>basic. basic_rate_value (td_basic_rate td) = Inr basic
           \<and> calculate_total_tariff base_cost td base_cost =
               Inr \<lparr>duty_rate = format_2f (spec_duty_rate td basic) @ ''%'',
                    total_duties = fmul base_cost (fdiv_by (spec_duty_rate td basic) 100),
                    total_cost = fadd (fmul base_cost (fdiv_by (spec_duty_rate td basic) 100))
                                   base_cost\<rparr>"
  proof -
    obtain basic where b: "basic_rate_value (td_basic_rate td) = Inr basic"
      using basic_rate_value_total assms(2) by auto
    have n: "total_rate_acc td basic = spec_basic_accumulator td basic"
      unfolding total_rate_acc_def spec_basic_accumulator_def add_rate_values_foldl by simp
    have a: "active_total_rate td = spec_active_total td"
      unfolding active_total_rate_def spec_active_total_def fold_add_rate_values_foldl by simp
    have e: "excluded_total_rate td = spec_excluded_total td"
      unfolding excluded_total_rate_def spec_excluded_total_def fold_add_rate_values_foldl by simp
    have "fadd (fadd (total_rate_acc td basic) (active_total_rate td)) (excluded_total_rate td)
            = spec_duty_rate td basic"
      by (simp add: n a e spec_duty_rate_def)
    then show ?thesis using b by (simp add: calculate_total_tariff_def Let_def)
  qed
  have active: "spec_active_total td =
           foldl fadd (Finite 0)
             (token_floats (concat (map (\<lambda>x. rate_tokens (item_rate x))
                                      (ot_active_penalties (other_tariffs rep)))))"
    unfolding spec_active_total_def get_data_rates(1)[OF assms(1)] ..
  have excluded: "spec_excluded_total td =
           foldl fadd (Finite 0)
             (token_floats (concat (map (\<lambda>x. rate_tokens (penalty_rate x))
                                      (ot_excluded_penalties (other_tariffs rep)))))"
    unfolding spec_excluded_total_def get_data_rates(2)[OF assms(1)] ..
  have scenario: "response_total (snd (calculate_tariff_route
            (Some [p\<lparr>rec_type := Some ''COMMODITY_CODE'', rateDescription := Text ''5%'',
                     specialRates := []\<rparr>])
            (req\<lparr>req_country := [co], req_mode_of_transport := [''ANY''],
                 req_base_cost := Finite 1000\<rparr>)))
         = Some \<lparr>duty_rate = ''5.00%'', total_duties = Finite 50, total_cost = Finite 1050\<rparr>"
    by (simp add: eval_defs)
  from formula active excluded scenario show ?thesis by (intro conjI)
qed

theorem duty_formula_in_floats_witness:
  "calculate_total_tariff (Finite 100) sample_tariff_data (Finite 100)
     = Inr \<lparr>duty_rate = ''25.00%'', total_duties = Finite 25, total_cost = Finite 125\<rparr>"
proof -
  have s: "td_basic_rate sample_tariff_data = Some ''0%''" by (simp add: sample_tariff_data_def)
  from duty_formula_in_floats[OF eval_sample_report s, of "Finite 100", THEN conjunct1]
  obtain basic where b: "basic_rate_value (td_basic_rate sample_tariff_data) = Inr basic"
    and c: "calculate_total_tariff (Finite 100) sample_tariff_data (Finite 100) =
               Inr \<lparr>duty_rate = format_2f (spec_duty_rate sample_tariff_data basic) @ ''%'',
                    total_duties = fmul (Finite 100) (fdiv_by (spec_duty_rate sample_tariff_data basic) 100),
                    total_cost = fadd (fmul (Finite 100) (fdiv_by (spec_duty_rate sample_tariff_data basic) 100))
                                   (Finite 100)\<rparr>" by blast
  have "basic = Finite 0"
    using b by (simp add: sample_tariff_data_def basic_rate_value_def extract_values_def py_lower_def
          match_number_def is_digit_def py_float_def digits_value_def strip_percent_def float_defs)
  then have "spec_duty_rate sample_tariff_data basic = Finite 25"
    by (simp add: spec_duty_rate_def spec_basic_accumulator_def spec_active_total_def
          spec_excluded_total_def token_floats_def map_filter_def sample_tariff_data_def
          py_float_def digits_value_def strip_percent_def is_digit_def float_defs)
  then show ?thesis using c by (simp add: float_defs)
qed

text \<open>
  Claim C1 fails on the code. A report built by \<open>generate_report_data\<close> never gives an
  excluded penalty the key \<open>neutral_exclusions\<close>, the only place \<open>get_data\<close> fills its
  list from, so whenever \<open>get_data\<close> returns (it raises TypeError on a rate that is not
  a string) the list of neutral values that reaches \<open>calculate_total_tariff\<close> is empty
  and the basic accumulator stays at the basic rate. On the snapshot of a primary
  record with rate \<open>5%\<close> and one applicable exclusion with rate \<open>10%\<close> that no penalty
  references, the report lists the neutral exclusion and the duty rate is \<open>5.00%\<close>,
  not \<open>15.00%\<close>.
\<close>

theorem neutral_exclusions_never_reach_accumulator:
  "(get_data (generate_report_data a co) = Inl TypeError
     \<or> (\<exists>td. get_data (generate_report_data a co) = Inr td
            \<and> td_neutral_exclusions td = [] \<and> total_rate_acc td basic = basic))
   \<and> map_option (\<lambda>d. ot_neutral_exclusions (other_tariffs d))
        (response_report (snd (calculate_tariff_route
          (Some [blank_tariff\<lparr>rec_type := Some ''COMMODITY_CODE'', rateDescription := Text ''5%''\<rparr>,
                 blank_tariff\<lparr>rec_type := Some ''CUSTOMS_TARIFF'', code := Some ''9903.01.99'',
                              rateDescription := Text ''10%''\<rparr>])
          (blank_request\<lparr>req_base_cost := Finite 1000\<rparr>))))
     = Some [\<lparr>item_label = ''N/A'', item_code = ''9903.01.99'', item_rate = Some ''10%'',
              requires_choice = False\<rparr>]
   \<and> response_total (snd (calculate_tariff_route
          (Some [blank_tariff\<lparr>rec_type := Some ''COMMODITY_CODE'', rateDescription := Text ''5%''\<rparr>,
                 blank_tariff\<lparr>rec_type := Some ''CUSTOMS_TARIFF'', code := Some ''9903.01.99'',
                              rateDescription := Text ''10%''\<rparr>])
          (blank_request\<lparr>req_base_cost := Finite 1000\<rparr>)))
     = Some \<lparr>duty_rate = ''5.00%'', total_duties = Finite 50, total_cost = Finite 1050\<rparr>"
proof -
  have general: "get_data (generate_report_data a co) = Inl TypeError
     \<or> (\<exists>td. get_data (generate_report_data a co) = Inr td
            \<and> td_neutral_exclusions td = [] \<and> total_rate_acc td basic = basic)"
  proof (cases "get_data (generate_report_data a co)")
    case (Inl e)
    then show ?thesis using get_data_Inl by blast
  next
    case (Inr td)
    have none: "td_neutral_exclusions td = []"
      using get_data_rates(3)[OF Inr] built_entries_have_no_neutral_key by blast
    have "total_rate_acc td basic = basic"
      by (simp add: total_rate_acc_def none add_rate_values_def fadd_zero_left)
    with Inr none show ?thesis by blast
  qed
  show ?thesis
    by (rule conjI[OF general]) (simp add: eval_defs blank_tariff_def blank_request_def)
qed

end
